theory Spec2Isabelle
  imports Main
begin

section \<open>Strings\<close>

text \<open>
  A JavaScript string is a sequence of code units. It is modelled as a \<open>string\<close>,
  one \<open>char\<close> for one code unit, so the model covers the texts whose code units
  are below 256. A nullable text column of the session store (\<open>html_code TEXT\<close>)
  is a \<open>string option\<close>, \<open>None\<close> for \<open>null\<close> and \<open>undefined\<close>.
\<close>

definition truthy :: "string option \<Rightarrow> bool" where
  \<comment> \<open>the test \<open>if (s)\<close> on a nullable string: \<open>null\<close>, \<open>undefined\<close> and \<open>''\<close> are falsy\<close>
  "truthy s = (case s of None \<Rightarrow> False | Some t \<Rightarrow> t \<noteq> [])"

definition newline :: char where
  "newline = CHR 0x0A"

fun split_nl :: "string \<Rightarrow> string list" where
  \<comment> \<open>\<open>code.split('\n')\<close>: never empty, \<open>''.split('\n')\<close> is \<open>['']\<close>\<close>
  "split_nl [] = [[]]"
| "split_nl (c # cs) =
     (if c = newline then [] # split_nl cs
      else (case split_nl cs of [] \<Rightarrow> [[c]] | l # ls \<Rightarrow> (c # l) # ls))"

fun join_nl :: "string list \<Rightarrow> string" where
  \<comment> \<open>\<open>lines.join('\n')\<close>\<close>
  "join_nl [] = []"
| "join_nl [l] = l"
| "join_nl (l # m # ls) = l @ newline # join_nl (m # ls)"

definition splice :: "'a list \<Rightarrow> nat \<Rightarrow> nat \<Rightarrow> 'a list \<Rightarrow> 'a list" where
  \<comment> \<open>\<open>xs.splice(i, n, ...items)\<close> for \<open>i \<le> xs.length\<close>: the array after the call\<close>
  "splice xs i n items = take i xs @ items @ drop (i + n) xs"

fun startsWith :: "'a list \<Rightarrow> 'a list \<Rightarrow> bool" where
  \<comment> \<open>\<open>startsWith p s\<close>: \<open>p\<close> is a prefix of \<open>s\<close>\<close>
  "startsWith [] s = True"
| "startsWith (p # ps) [] = False"
| "startsWith (p # ps) (c # cs) = (p = c \<and> startsWith ps cs)"

fun includes_str :: "'a list \<Rightarrow> 'a list \<Rightarrow> bool" where
  \<comment> \<open>\<open>includes_str s p\<close> is \<open>s.includes(p)\<close>\<close>
  "includes_str [] p = (p = [])"
| "includes_str (c # cs) p = (startsWith p (c # cs) \<or> includes_str cs p)"

section \<open>The executor: replacing a range of lines\<close>

datatype replaceError =
    InvalidLineNumbers int int      \<comment> \<open>\<open>Invalid line numbers: start=.., end=... Line numbers must be >= 1.\<close>\<close>
  | LineNumbersOutOfRange int int nat  \<comment> \<open>\<open>Line numbers out of range: .. but file only has n lines.\<close>\<close>
  | InvalidRange int int            \<comment> \<open>\<open>Invalid range: start (..) is greater than end (..).\<close>\<close>

definition replaceLines ::
  "string \<Rightarrow> int \<Rightarrow> int \<Rightarrow> string \<Rightarrow> string \<times> replaceError option" where
  \<comment> \<open>\<open>replaceLines(code, start, end, newContent, filePath)\<close>; \<open>filePath\<close> is only logged.
      The result is the pair \<open>(result, error)\<close>.\<close>
  "replaceLines code start end newContent =
     (let lines = split_nl code;
          totalLines = length lines
      in if start < 1 \<or> end < 1 then (code, Some (InvalidLineNumbers start end))
         else if start > int totalLines \<or> end > int totalLines
           then (code, Some (LineNumbersOutOfRange start end totalLines))
         else if start > end then (code, Some (InvalidRange start end))
         else (join_nl (splice lines (nat (start - 1)) (nat (end - start + 1))
                          (split_nl newContent)), None))"

section \<open>Character classes and pattern scanning\<close>

text \<open>
  The regular expressions of the source are translated by hand, each into a function
  that says whether the expression matches at the head of a text and how many code units
  the match takes. None of them looks behind the start of the match, so a match at
  position \<open>i\<close> of \<open>s\<close> is a match at the head of \<open>drop i s\<close>; none of them matches
  the empty text.
\<close>

definition isLetter :: "char \<Rightarrow> bool" where
  \<comment> \<open>\<open>[a-z]\<close> under the flag \<open>i\<close>\<close>
  "isLetter c = (c \<in> set ''abcdefghijklmnopqrstuvwxyzABCDEFGHIJKLMNOPQRSTUVWXYZ'')"

definition isAlnum :: "char \<Rightarrow> bool" where
  \<comment> \<open>\<open>[a-z0-9]\<close> under the flag \<open>i\<close>\<close>
  "isAlnum c = (isLetter c \<or> c \<in> set ''0123456789'')"

definition isSpace :: "char \<Rightarrow> bool" where
  \<comment> \<open>\<open>\s\<close> on code units below 256: tab, line feed, vertical tab, form feed,
      carriage return, space, no-break space\<close>
  "isSpace c = (c \<in> set [CHR 0x09, CHR 0x0A, CHR 0x0B, CHR 0x0C, CHR 0x0D, CHR 0x20, CHR 0xA0])"

definition isQuote :: "char \<Rightarrow> bool" where
  \<comment> \<open>\<open>["']\<close>\<close>
  "isQuote c = (c = CHR 0x22 \<or> c = CHR 0x27)"

definition toLowerChar :: "char \<Rightarrow> char" where
  \<comment> \<open>lower case of the letters \<open>A\<close> to \<open>Z\<close>; every other code unit is kept\<close>
  "toLowerChar c =
     (case map_of (zip ''ABCDEFGHIJKLMNOPQRSTUVWXYZ'' ''abcdefghijklmnopqrstuvwxyz'') c of
        Some l \<Rightarrow> l | None \<Rightarrow> c)"

definition toLowerCase :: "string \<Rightarrow> string" where
  "toLowerCase s = map toLowerChar s"

definition startsWithCI :: "string \<Rightarrow> string \<Rightarrow> bool" where
  \<comment> \<open>a literal of the pattern, in lower case, matched under the flag \<open>i\<close>\<close>
  "startsWithCI p s = startsWith p (toLowerCase (take (length p) s))"

definition endsWithCI :: "string \<Rightarrow> string \<Rightarrow> bool" where
  "endsWithCI p s = (length p \<le> length s \<and> toLowerCase (drop (length s - length p) s) = p)"

function countMatches :: "(string \<Rightarrow> nat option) \<Rightarrow> string \<Rightarrow> nat" where
  \<comment> \<open>\<open>(s.match(/re/g) || []).length\<close>: the matches are taken from left to right and
      do not overlap; \<open>m\<close> gives the length of the match at the head of the text\<close>
  "countMatches m [] = 0"
| "countMatches m (c # cs) =
     (case m (c # cs) of
        None \<Rightarrow> countMatches m cs
      | Some n \<Rightarrow> Suc (countMatches m (drop (n - 1) cs)))"
  by pat_completeness auto
termination
  by (relation "measure (\<lambda>(m, s). length s)") auto

function gsub :: "(string \<Rightarrow> nat option) \<Rightarrow> string \<Rightarrow> string \<Rightarrow> string" where
  \<comment> \<open>\<open>s.replace(/re/g, rep)\<close> for a replacement text without \<open>$\<close>\<close>
  "gsub m rep [] = []"
| "gsub m rep (c # cs) =
     (case m (c # cs) of
        None \<Rightarrow> c # gsub m rep cs
      | Some n \<Rightarrow> rep @ gsub m rep (drop (n - 1) cs))"
  by pat_completeness auto
termination
  by (relation "measure (\<lambda>(m, rep, s). length s)") auto

fun existsMatch :: "(string \<Rightarrow> bool) \<Rightarrow> string \<Rightarrow> bool" where
  \<comment> \<open>\<open>s.match(/re/g)\<close> is not \<open>null\<close>: the expression matches at some position\<close>
  "existsMatch m [] = False"
| "existsMatch m (c # cs) = (m (c # cs) \<or> existsMatch m cs)"

section \<open>The executor: checking the markup\<close>

definition openTagMatch :: "string \<Rightarrow> nat option" where
  \<comment> \<open>\<open>/<(?!\/|!)[a-z][a-z0-9]*[^>]*>/gi\<close>: \<open><\<close>, a letter, then everything up to the
      first \<open>>\<close>\<close>
  "openTagMatch s =
     (case s of
        a # b # rest \<Rightarrow>
          if a = CHR ''<'' \<and> isLetter b \<and> CHR ''>'' \<in> set rest
          then Some (length (takeWhile (\<lambda>c. c \<noteq> CHR ''>'') rest) + 3)
          else None
      | _ \<Rightarrow> None)"

definition closeTagMatch :: "string \<Rightarrow> nat option" where
  \<comment> \<open>\<open>/<\/[a-z][a-z0-9]*>/gi\<close>\<close>
  "closeTagMatch s =
     (case s of
        a # b # c # rest \<Rightarrow>
          if a = CHR ''<'' \<and> b = CHR ''/'' \<and> isLetter c
             \<and> startsWith ''>'' (dropWhile isAlnum rest)
          then Some (length (takeWhile isAlnum rest) + 4)
          else None
      | _ \<Rightarrow> None)"

definition selfClosingMatch :: "string \<Rightarrow> nat option" where
  \<comment> \<open>\<open>/<[a-z][a-z0-9]*[^>]*\/>/gi\<close>: \<open><\<close>, a letter, then up to the first \<open>>\<close>, which
      must come right after a \<open>/\<close>\<close>
  "selfClosingMatch s =
     (case s of
        a # b # rest \<Rightarrow>
          (let body = takeWhile (\<lambda>c. c \<noteq> CHR ''>'') rest
           in if a = CHR ''<'' \<and> isLetter b \<and> CHR ''>'' \<in> set rest
                 \<and> body \<noteq> [] \<and> last body = CHR ''/''
              then Some (length body + 3)
              else None)
      | _ \<Rightarrow> None)"

datatype htmlError =
    MissingDoctype        \<comment> \<open>\<open>Missing DOCTYPE declaration\<close>\<close>
  | MissingHtmlTag        \<comment> \<open>\<open>Missing <html> tag\<close>\<close>
  | MissingHeadTag        \<comment> \<open>\<open>Missing <head> tag\<close>\<close>
  | MissingBodyTag        \<comment> \<open>\<open>Missing <body> tag\<close>\<close>
  | UnclosedTags int nat  \<comment> \<open>\<open>Possible unclosed tags: n open tags vs m close tags\<close>\<close>

definition validateHTML :: "string \<Rightarrow> bool \<times> htmlError list" where
  \<comment> \<open>the pair \<open>(valid, errors)\<close>\<close>
  "validateHTML html =
     (let openTags = countMatches openTagMatch html;
          closeTags = countMatches closeTagMatch html;
          selfClosingTags = countMatches selfClosingMatch html;
          errors =
            (if \<not> includes_str html ''<!DOCTYPE html>'' then [MissingDoctype] else [])
            @ (if \<not> includes_str html ''<html'' then [MissingHtmlTag] else [])
            @ (if \<not> includes_str html ''<head>'' then [MissingHeadTag] else [])
            @ (if \<not> includes_str html ''<body>'' then [MissingBodyTag] else [])
            @ (if int openTags - int selfClosingTags \<noteq> int closeTags
               then [UnclosedTags (int openTags - int selfClosingTags) closeTags] else [])
      in (errors = [], errors))"

definition tagBalanced :: "string \<Rightarrow> bool" where
  \<comment> \<open>the last check of \<open>validateHTML\<close> taken alone\<close>
  "tagBalanced html =
     (int (countMatches openTagMatch html) - int (countMatches selfClosingMatch html)
        = int (countMatches closeTagMatch html))"

section \<open>The executor: references to external files\<close>

definition quotedTarget :: "string list \<Rightarrow> string list \<Rightarrow> string \<Rightarrow> bool" where
  \<comment> \<open>\<open>["'](?!scheme1|scheme2)[^"']+\.(ext1|ext2)["']\<close>: a quote, a run of one or more
      code units other than quotes that ends with one of the extensions, and a quote;
      the run does not start with one of the schemes\<close>
  "quotedTarget schemes exts s =
     (case s of
        [] \<Rightarrow> False
      | q # u \<Rightarrow>
          (let run = takeWhile (\<lambda>c. \<not> isQuote c) u
           in isQuote q
              \<and> \<not> (\<exists>sch \<in> set schemes. startsWithCI sch u)
              \<and> dropWhile (\<lambda>c. \<not> isQuote c) u \<noteq> []
              \<and> (\<exists>e \<in> set exts. length e < length run \<and> endsWithCI e run)))"

definition scriptRefMatch :: "string \<Rightarrow> bool" where
  \<comment> \<open>\<open>/<script\s+src=["'](?!https?:\/\/)[^"']+\.js["']/gi\<close>\<close>
  "scriptRefMatch s =
     (let r = drop 7 s; r' = dropWhile isSpace r
      in startsWithCI ''<script'' s \<and> length r' < length r \<and> startsWithCI ''src='' r'
         \<and> quotedTarget [''http://'', ''https://''] [''.js''] (drop 4 r'))"

fun attrTarget :: "string \<Rightarrow> string list \<Rightarrow> string list \<Rightarrow> string \<Rightarrow> bool" where
  \<comment> \<open>\<open>[^>]*attr=["'](?!..)[^"']+\.(..)["']\<close>: the attribute starts after any number
      of code units other than \<open>>\<close>\<close>
  "attrTarget attr schemes exts [] = False"
| "attrTarget attr schemes exts (c # cs) =
     ((startsWithCI attr (c # cs) \<and> quotedTarget schemes exts (drop (length attr) (c # cs)))
      \<or> (c \<noteq> CHR ''>'' \<and> attrTarget attr schemes exts cs))"

definition linkRefMatch :: "string \<Rightarrow> bool" where
  \<comment> \<open>\<open>/<link\s+[^>]*href=["'](?!https?:\/\/)[^"']+\.css["']/gi\<close>\<close>
  "linkRefMatch s =
     (case drop 5 s of
        [] \<Rightarrow> False
      | w # r \<Rightarrow> startsWithCI ''<link'' s \<and> isSpace w
                  \<and> attrTarget ''href='' [''http://'', ''https://''] [''.css''] r)"

definition imgRefMatch :: "string \<Rightarrow> bool" where
  \<comment> \<open>\<open>/<img\s+[^>]*src=["'](?!https?:\/\/|data:)[^"']+\.(png|jpg|jpeg|gif|svg)["']/gi\<close>\<close>
  "imgRefMatch s =
     (case drop 4 s of
        [] \<Rightarrow> False
      | w # r \<Rightarrow> startsWithCI ''<img'' s \<and> isSpace w
                  \<and> attrTarget ''src='' [''http://'', ''https://'', ''data:'']
                       [''.png'', ''.jpg'', ''.jpeg'', ''.gif'', ''.svg''] r)"

datatype refKind =
    ScriptFiles   \<comment> \<open>\<open>type: 'script files'\<close>\<close>
  | CssFiles      \<comment> \<open>\<open>type: 'CSS files'\<close>\<close>
  | ImageFiles    \<comment> \<open>\<open>type: 'image files'\<close>\<close>

definition externalRefs :: "string \<Rightarrow> refKind option" where
  \<comment> \<open>the loop over \<open>externalRefs\<close>: the kind of the first pattern that matches\<close>
  "externalRefs content =
     (if existsMatch scriptRefMatch content then Some ScriptFiles
      else if existsMatch linkRefMatch content then Some CssFiles
      else if existsMatch imgRefMatch content then Some ImageFiles
      else None)"

section \<open>Operations and the session\<close>

text \<open>
  An operation of the model's response is an object with a \<open>tool_name\<close> and a
  parameter object, which the executor reads as
  \<open>toolCall.parameters ?? toolCall.params ?? toolCall.arguments ?? toolCall.args\<close>.
  A field that is absent is \<open>None\<close>. Line numbers are integers.
\<close>

record toolParams =
  file_path :: "string option"
  content :: "string option"
  start_line :: "int option"
  end_line :: "int option"
  name :: "string option"
  prompt :: "string option"

record toolCall =
  tool_name :: "string option"
  parameters :: "toolParams option"
  params :: "toolParams option"
  arguments :: "toolParams option"
  args :: "toolParams option"

definition noParams :: toolParams where
  \<comment> \<open>the object \<open>{}\<close> of \<open>(params || {})\<close>\<close>
  "noParams = \<lparr>file_path = None, content = None, start_line = None, end_line = None,
                name = None, prompt = None\<rparr>"

definition paramsOf :: "toolCall \<Rightarrow> toolParams" where
  "paramsOf tc =
     (case parameters tc of Some p \<Rightarrow> p | None \<Rightarrow>
      (case params tc of Some p \<Rightarrow> p | None \<Rightarrow>
       (case arguments tc of Some p \<Rightarrow> p | None \<Rightarrow>
        (case args tc of Some p \<Rightarrow> p | None \<Rightarrow> noParams))))"

datatype role = User | Assistant

datatype status = Initial | PlanningComplete | Orchestrating | CodingComplete

record code =
  html_code :: "string option"
  css_code :: "string option"
  js_code :: "string option"
  asset_urls :: "string list option"

record session = code +
  chat_history :: "(role \<times> string) list"
  status :: status

datatype summaryLine =
    SkippedImageMissingParams   \<comment> \<open>\<open>Skipped an image generation call due to missing parameters\<close>\<close>
  | GeneratedImage string string   \<comment> \<open>\<open>Generated image 'name' at url\<close>\<close>
  | FailedImage string string      \<comment> \<open>\<open>Failed to generate image 'name': message\<close>\<close>
  | ReplacedPlaceholders nat       \<comment> \<open>\<open>Replaced n image placeholders in code with generated URLs.\<close>\<close>
  | SkippedWriteMissing            \<comment> \<open>\<open>Skipped write_file: missing file_path or content\<close>\<close>
  | Wrote string                   \<comment> \<open>\<open>Wrote content to fp.\<close>\<close>
  | SkippedReplaceMissing          \<comment> \<open>\<open>Skipped replace_lines: missing required parameters\<close>\<close>
  | ErrorReplacing string replaceError   \<comment> \<open>\<open>ERROR replacing lines in fp: error\<close>\<close>
  | ValidationWarning "htmlError list"
      \<comment> \<open>\<open>WARNING: HTML validation failed after line replacement: errors\<close>\<close>
  | RolledBack   \<comment> \<open>\<open>Rolled back HTML to previous version due to validation failure\<close>\<close>
  | Replaced int int string        \<comment> \<open>\<open>Replaced lines start-end in fp.\<close>\<close>
  | SkippedUnknownTool "string option"   \<comment> \<open>\<open>Skipped unknown tool: tool_name\<close>\<close>

record execState = code +
  imageUrlMap :: "(string \<times> string) list"
  actionsSummary :: "summaryLine list"

definition push :: "summaryLine list \<Rightarrow> execState \<Rightarrow> execState" where
  \<comment> \<open>\<open>actionsSummary.push(line)\<close>, for one line or two\<close>
  "push ls st = st\<lparr>actionsSummary := actionsSummary st @ ls\<rparr>"

datatype fatal =
    ExternalReference refKind
      \<comment> \<open>\<open>throw new Error('HTML contains references to external ...')\<close>\<close>
  | InvalidRegExp string
      \<comment> \<open>the \<open>SyntaxError\<close> that \<open>new RegExp\<close> throws for an expression that is not
          well formed, with the name of the image; like every exception it is caught at
          the end of the handler, which answers with an error and stores nothing\<close>

section \<open>The executor, stage 1: image generation\<close>

text \<open>
  \<open>generateAndStoreImage\<close> calls the image model and the object store. It is a
  parameter \<open>gen\<close>: for the \<open>i\<close>-th image operation of the batch, with its name and
  prompt, either the message of the error thrown (\<open>Inl\<close>) or the public URL.
\<close>

fun mapSet :: "string \<Rightarrow> string \<Rightarrow> (string \<times> string) list \<Rightarrow> (string \<times> string) list" where
  \<comment> \<open>\<open>Map.prototype.set\<close>: a key already present keeps its place\<close>
  "mapSet k v [] = [(k, v)]"
| "mapSet k v ((k', v') # kvs) = (if k' = k then (k, v) # kvs else (k', v') # mapSet k v kvs)"

definition addAsset :: "string \<Rightarrow> string list option \<Rightarrow> string list option" where
  \<comment> \<open>\<open>if (!asset_urls) asset_urls = []; if (!asset_urls.includes(u)) asset_urls.push(u)\<close>\<close>
  "addAsset u assets =
     (let xs = (case assets of None \<Rightarrow> [] | Some ys \<Rightarrow> ys)
      in Some (if u \<in> set xs then xs else xs @ [u]))"

fun imageStage ::
  "(nat \<Rightarrow> string \<Rightarrow> string \<Rightarrow> string + string) \<Rightarrow> nat \<Rightarrow> toolCall list \<Rightarrow> execState
     \<Rightarrow> execState" where
  "imageStage gen i [] st = st"
| "imageStage gen i (toolCall # rest) st =
     (let p = paramsOf toolCall
      in if \<not> truthy (name p) \<or> \<not> truthy (prompt p)
         then imageStage gen (Suc i) rest (push [SkippedImageMissingParams] st)
         else (case (name p, prompt p) of
                 (Some n, Some pr) \<Rightarrow>
                   (case gen i n pr of
                      Inr publicUrl \<Rightarrow>
                        imageStage gen (Suc i) rest
                          (push [GeneratedImage n publicUrl]
                             (st\<lparr>imageUrlMap := mapSet n publicUrl (imageUrlMap st),
                                 asset_urls := addAsset publicUrl (asset_urls st)\<rparr>))
                    | Inl message \<Rightarrow>
                        imageStage gen (Suc i) rest (push [FailedImage n message] st))
               | _ \<Rightarrow> imageStage gen (Suc i) rest (push [SkippedImageMissingParams] st)))"

section \<open>The executor, stage 2: image placeholders\<close>

text \<open>
  The three expressions are built from the name of the image: \<open>\{\{name\}\}\<close>,
  \<open>(['"])name\.png\1\<close> and \<open>(['"])name\1\<close>, all with the flag \<open>g\<close>. The name is
  pasted into the expression as it is, and the URL into the replacement text as it is.

  For a name in which no character has a meaning in a regular expression, and a URL
  without \<open>$\<close>, the three expressions are \<open>curlyMatch\<close>, \<open>quotedPngMatch\<close> and
  \<open>quotedMatch\<close> below, and \<open>replace\<close> is \<open>gsub\<close>. For every other name or URL, what
  \<open>new RegExp\<close> and \<open>replace\<close> do is a parameter \<open>regExp\<close>: for the source text of an
  expression it gives \<open>None\<close> when \<open>new RegExp\<close> throws a \<open>SyntaxError\<close>, and otherwise
  the function that \<open>text.replace(expression, rep)\<close> computes from \<open>rep\<close> and \<open>text\<close>.
\<close>

type_synonym replacer = "string \<Rightarrow> string \<Rightarrow> string"

type_synonym regExp = "string \<Rightarrow> replacer option"

definition regexMeta :: "char \<Rightarrow> bool" where
  "regexMeta c = (c \<in> set [CHR 0x5C, CHR ''^'', CHR ''$'', CHR ''.'', CHR ''|'', CHR ''?'',
      CHR ''*'', CHR ''+'', CHR ''('', CHR '')'', CHR ''['', CHR '']'', CHR ''{'', CHR ''}''])"

definition literalName :: "string \<Rightarrow> bool" where
  "literalName n = (\<forall>c \<in> set n. \<not> regexMeta c)"

definition literalUrl :: "string \<Rightarrow> bool" where
  "literalUrl u = (CHR ''$'' \<notin> set u)"

definition curlyMatch :: "string \<Rightarrow> string \<Rightarrow> nat option" where
  \<comment> \<open>\<open>\{\{name\}\}\<close>\<close>
  "curlyMatch n s =
     (if startsWith (''{{'' @ n @ ''}}'') s then Some (length n + 4) else None)"

definition quotedPngMatch :: "string \<Rightarrow> string \<Rightarrow> nat option" where
  \<comment> \<open>\<open>(['"])name\.png\1\<close>: the closing quote is the opening one\<close>
  "quotedPngMatch n s =
     (case s of
        [] \<Rightarrow> None
      | q # r \<Rightarrow> if isQuote q \<and> startsWith (n @ ''.png'' @ [q]) r
                  then Some (length n + 6) else None)"

definition quotedMatch :: "string \<Rightarrow> string \<Rightarrow> nat option" where
  \<comment> \<open>\<open>(['"])name\1\<close>\<close>
  "quotedMatch n s =
     (case s of
        [] \<Rightarrow> None
      | q # r \<Rightarrow> if isQuote q \<and> startsWith (n @ [q]) r
                  then Some (length n + 2) else None)"

definition backslash :: char where
  "backslash = CHR 0x5C"

definition sources :: "string \<Rightarrow> string list" where
  \<comment> \<open>the source texts of the three expressions, as the template literals give them\<close>
  \<open>sources n =
     [[backslash, CHR ''{'', backslash, CHR ''{''] @ n @ [backslash, CHR ''}'', backslash, CHR ''}''],
      ''([\'"])'' @ n @ [backslash] @ ''.png'' @ [backslash] @ ''1'',
      ''([\'"])'' @ n @ [backslash] @ ''1'']\<close>

definition patterns :: "regExp \<Rightarrow> string \<Rightarrow> string \<Rightarrow> replacer list option" where
  \<comment> \<open>the array \<open>patterns\<close>, each expression with its \<open>replace\<close>; \<open>None\<close> when one of the
      three \<open>new RegExp\<close> throws\<close>
  "patterns regExp n u =
     (if literalName n \<and> literalUrl u
      then Some [gsub (curlyMatch n), gsub (quotedPngMatch n), gsub (quotedMatch n)]
      else (case map regExp (sources n) of
              [Some p1, Some p2, Some p3] \<Rightarrow> Some [p1, p2, p3]
            | _ \<Rightarrow> None))"

definition quotedUrl :: "string \<Rightarrow> string" where
  \<comment> \<open>the replacement \<open>'url'\<close> in \<open>html_code\<close> and \<open>js_code\<close>\<close>
  "quotedUrl u = [CHR 0x27] @ u @ [CHR 0x27]"

definition cssUrl :: "string \<Rightarrow> string" where
  \<comment> \<open>the replacement \<open>url('url')\<close> in \<open>css_code\<close>\<close>
  "cssUrl u = ''url('' @ quotedUrl u @ '')''"

definition replaceIn :: "replacer \<Rightarrow> string \<Rightarrow> string option \<Rightarrow> string option" where
  \<comment> \<open>\<open>if (x_code) x_code = x_code.replace(pattern, rep)\<close>\<close>
  "replaceIn pattern rep c = (if truthy c then map_option (pattern rep) c else c)"

definition replacePattern :: "string \<Rightarrow> replacer \<Rightarrow> execState \<Rightarrow> execState" where
  \<comment> \<open>the body of \<open>for (const pattern of patterns)\<close>\<close>
  "replacePattern u pattern st =
     st\<lparr>html_code := replaceIn pattern (quotedUrl u) (html_code st),
        css_code := replaceIn pattern (cssUrl u) (css_code st),
        js_code := replaceIn pattern (quotedUrl u) (js_code st)\<rparr>"

definition replaceImage :: "regExp \<Rightarrow> string \<times> string \<Rightarrow> execState \<Rightarrow> fatal + execState" where
  \<comment> \<open>the body of \<open>for (const [name, url] of imageUrlMap.entries())\<close>\<close>
  "replaceImage regExp nu st =
     (case patterns regExp (fst nu) (snd nu) of
        None \<Rightarrow> Inl (InvalidRegExp (fst nu))
      | Some ps \<Rightarrow> Inr (fold (replacePattern (snd nu)) ps st))"

fun replaceImages :: "regExp \<Rightarrow> (string \<times> string) list \<Rightarrow> execState \<Rightarrow> fatal + execState" where
  \<comment> \<open>the loop over the entries of \<open>imageUrlMap\<close>\<close>
  "replaceImages regExp [] st = Inr st"
| "replaceImages regExp (nu # rest) st =
     (case replaceImage regExp nu st of
        Inl e \<Rightarrow> Inl e
      | Inr st' \<Rightarrow> replaceImages regExp rest st')"

definition placeholderStage :: "regExp \<Rightarrow> execState \<Rightarrow> fatal + execState" where
  "placeholderStage regExp st =
     (if imageUrlMap st = [] then Inr st
      else (case replaceImages regExp (imageUrlMap st) st of
              Inl e \<Rightarrow> Inl e
            | Inr st' \<Rightarrow> Inr (push [ReplacedPlaceholders (length (imageUrlMap st))] st')))"

section \<open>The executor, stage 3: code operations\<close>

definition mapFilePath :: "string \<Rightarrow> string" where
  "mapFilePath p =
     (if p = [] then p
      else (let lp = toLowerCase p
            in if lp = ''html'' \<or> lp = ''html_code'' \<or> lp = ''index.html'' then ''html''
               else if lp = ''css'' \<or> lp = ''css_code'' \<or> lp = ''style.css'' then ''css''
               else if lp = ''js'' \<or> lp = ''js_code'' \<or> lp = ''script.js'' \<or> lp = ''game.js''
                 then ''js''
               else lp))"

definition write_file :: "toolParams \<Rightarrow> execState \<Rightarrow> fatal + execState" where
  \<comment> \<open>the branch \<open>toolCall.tool_name === 'write_file'\<close>\<close>
  "write_file p st =
     (case (file_path p, content p) of
        (Some path, Some c) \<Rightarrow>
          if path = [] \<or> c = [] then Inr (push [SkippedWriteMissing] st)
          else (let fp = mapFilePath path
                in case (if fp = ''html'' then externalRefs c else None) of
                     Some kind \<Rightarrow> Inl (ExternalReference kind)
                   | None \<Rightarrow>
                       Inr (push [Wrote fp]
                          (st\<lparr>html_code := (if fp = ''html'' then Some c else html_code st),
                              css_code := (if fp = ''css'' then Some c else css_code st),
                              js_code := (if fp = ''js'' then Some c else js_code st)\<rparr>)))
      | _ \<Rightarrow> Inr (push [SkippedWriteMissing] st))"

datatype flow =
    Continue execState   \<comment> \<open>the statement \<open>continue\<close>: on to the next operation\<close>
  | Fall execState       \<comment> \<open>the block is left at its end\<close>

definition replaceHtml ::
  "string option \<Rightarrow> string \<Rightarrow> int \<Rightarrow> int \<Rightarrow> string \<Rightarrow> execState \<Rightarrow> flow" where
  \<comment> \<open>the block \<open>if (fp === 'html' && html_code)\<close>\<close>
  "replaceHtml backup_html fp start end c st =
     (case html_code st of
        Some html \<Rightarrow>
          if fp = ''html'' \<and> html \<noteq> [] then
            (case replaceLines html start end c of
               (_, Some err) \<Rightarrow> Continue (push [ErrorReplacing fp err] st)
             | (result, None) \<Rightarrow>
                 if \<not> fst (validateHTML result)
                 then Continue (push [ValidationWarning (snd (validateHTML result)), RolledBack]
                                  (st\<lparr>html_code := backup_html\<rparr>))
                 else Fall (st\<lparr>html_code := Some result\<rparr>))
          else Fall st
      | None \<Rightarrow> Fall st)"

definition replaceCss :: "string \<Rightarrow> int \<Rightarrow> int \<Rightarrow> string \<Rightarrow> execState \<Rightarrow> flow" where
  \<comment> \<open>the block \<open>if (fp === 'css' && css_code)\<close>\<close>
  "replaceCss fp start end c st =
     (case css_code st of
        Some css \<Rightarrow>
          if fp = ''css'' \<and> css \<noteq> [] then
            (case replaceLines css start end c of
               (_, Some err) \<Rightarrow> Continue (push [ErrorReplacing fp err] st)
             | (result, None) \<Rightarrow> Fall (st\<lparr>css_code := Some result\<rparr>))
          else Fall st
      | None \<Rightarrow> Fall st)"

definition replaceJs :: "string \<Rightarrow> int \<Rightarrow> int \<Rightarrow> string \<Rightarrow> execState \<Rightarrow> flow" where
  \<comment> \<open>the block \<open>if (fp === 'js' && js_code)\<close>\<close>
  "replaceJs fp start end c st =
     (case js_code st of
        Some js \<Rightarrow>
          if fp = ''js'' \<and> js \<noteq> [] then
            (case replaceLines js start end c of
               (_, Some err) \<Rightarrow> Continue (push [ErrorReplacing fp err] st)
             | (result, None) \<Rightarrow> Fall (st\<lparr>js_code := Some result\<rparr>))
          else Fall st
      | None \<Rightarrow> Fall st)"

definition replace_lines :: "string option \<Rightarrow> toolParams \<Rightarrow> execState \<Rightarrow> execState" where
  \<comment> \<open>the branch \<open>toolCall.tool_name === 'replace_lines'\<close>\<close>
  "replace_lines backup_html p st =
     (case (file_path p, start_line p, end_line p, content p) of
        (Some path, Some start, Some end, Some c) \<Rightarrow>
          if path = [] then push [SkippedReplaceMissing] st
          else (let fp = mapFilePath path
                in case replaceHtml backup_html fp start end c st of
                     Continue st' \<Rightarrow> st'
                   | Fall st1 \<Rightarrow>
                       (case replaceCss fp start end c st1 of
                          Continue st' \<Rightarrow> st'
                        | Fall st2 \<Rightarrow>
                            (case replaceJs fp start end c st2 of
                               Continue st' \<Rightarrow> st'
                             | Fall st3 \<Rightarrow> push [Replaced start end fp] st3)))
      | _ \<Rightarrow> push [SkippedReplaceMissing] st)"

definition codeStep :: "string option \<Rightarrow> toolCall \<Rightarrow> execState \<Rightarrow> fatal + execState" where
  \<comment> \<open>the body of \<open>for (const toolCall of codeModificationCalls)\<close>\<close>
  "codeStep backup_html toolCall st =
     (if tool_name toolCall = Some ''write_file'' then write_file (paramsOf toolCall) st
      else if tool_name toolCall = Some ''replace_lines''
        then Inr (replace_lines backup_html (paramsOf toolCall) st)
      else Inr (push [SkippedUnknownTool (tool_name toolCall)] st))"

fun codeStage :: "string option \<Rightarrow> toolCall list \<Rightarrow> execState \<Rightarrow> fatal + execState" where
  "codeStage backup_html [] st = Inr st"
| "codeStage backup_html (toolCall # rest) st =
     (case codeStep backup_html toolCall st of
        Inl e \<Rightarrow> Inl e
      | Inr st' \<Rightarrow> codeStage backup_html rest st')"

section \<open>The executor: one batch\<close>

text \<open>
  The summarizer is a parameter \<open>summarize\<close>: the text it answers for the summary lines,
  or \<open>None\<close> when the call fails or answers nothing. The session store is taken to
  answer every read and update.
\<close>

definition isImageCall :: "toolCall \<Rightarrow> bool" where
  "isImageCall call = (tool_name call = Some ''generate_image'')"

definition startState :: "session \<Rightarrow> execState" where
  "startState s = \<lparr>html_code = html_code s, css_code = css_code s, js_code = js_code s,
                   asset_urls = asset_urls s, imageUrlMap = [], actionsSummary = []\<rparr>"

definition stages ::
  "(nat \<Rightarrow> string \<Rightarrow> string \<Rightarrow> string + string) \<Rightarrow> regExp \<Rightarrow> session \<Rightarrow> toolCall list
     \<Rightarrow> fatal + execState" where
  \<comment> \<open>stages 1 to 3, from the session as read to the state before the summary\<close>
  "stages gen regExp s toolCalls =
     (case placeholderStage regExp
             (imageStage gen 0 (filter isImageCall toolCalls) (startState s)) of
        Inl e \<Rightarrow> Inl e
      | Inr st \<Rightarrow> codeStage (html_code s) (filter (\<lambda>call. \<not> isImageCall call) toolCalls) st)"

definition defaultChatResponse :: string where
  \<open>defaultChatResponse = ''I\'ve updated your game with the requested changes.''\<close>

definition chatResponseOf :: "string option \<Rightarrow> string" where
  \<comment> \<open>the summarizer's answer if there is one and it is not empty\<close>
  "chatResponseOf answer =
     (case answer of
        Some t \<Rightarrow> if t = [] then defaultChatResponse else t
      | None \<Rightarrow> defaultChatResponse)"

definition execute ::
  "(nat \<Rightarrow> string \<Rightarrow> string \<Rightarrow> string + string) \<Rightarrow> regExp
     \<Rightarrow> (summaryLine list \<Rightarrow> string option)
     \<Rightarrow> session \<Rightarrow> toolCall list \<Rightarrow> (fatal + string) \<times> session" where
  \<comment> \<open>the answer, an error or the chat response, and the session as stored afterwards\<close>
  "execute gen regExp summarize s toolCalls =
     (case stages gen regExp s toolCalls of
        Inl e \<Rightarrow> (Inl e, s)
      | Inr st \<Rightarrow>
          (let assistantChatResponse = chatResponseOf (summarize (actionsSummary st))
           in (Inr assistantChatResponse,
               s\<lparr>html_code := html_code st, css_code := css_code st, js_code := js_code st,
                  asset_urls := asset_urls st,
                  chat_history := chat_history s @ [(Assistant, assistantChatResponse)],
                  status := CodingComplete\<rparr>)))"

section \<open>The orchestrator: validating the operations\<close>

datatype orchError =
    ModelCallFailed   \<comment> \<open>\<open>AI API returned status: text\<close>\<close>
  | ParseFailed       \<comment> \<open>\<open>Failed to parse AI response as JSON: ..\<close>\<close>
  | MissingOperations \<comment> \<open>\<open>AI response missing required "operations" array.\<close>\<close>
  | MissingToolNameOrParameters nat
      \<comment> \<open>\<open>Operation i is missing "tool_name" or "parameters" field\<close>\<close>
  | InvalidFilePath string
      \<comment> \<open>\<open>Invalid file_path "..". Only html_code, css_code, and js_code are allowed.\<close>\<close>

definition normalizeFilePath :: "string \<Rightarrow> string" where
  "normalizeFilePath path =
     (if path = [] then path
      else (let lp = toLowerCase path
            in if lp = ''html'' \<or> lp = ''html_code'' \<or> lp = ''index.html'' then ''html_code''
               else if lp = ''css'' \<or> lp = ''css_code'' \<or> lp = ''style.css''
                       \<or> lp = ''styles.css'' then ''css_code''
               else if lp = ''js'' \<or> lp = ''js_code'' \<or> lp = ''script.js'' \<or> lp = ''game.js''
                       \<or> lp = ''main.js'' then ''js_code''
               else lp))"

definition validPaths :: "string list" where
  "validPaths = [''html_code'', ''css_code'', ''js_code'']"

definition validateOperation :: "nat \<Rightarrow> toolCall \<Rightarrow> orchError + toolCall" where
  \<comment> \<open>the body of the loop \<open>for (let i = 0; i < operations.length; i++)\<close>: the error
      thrown, or the operation with its path normalized\<close>
  "validateOperation i op =
     (case parameters op of
        None \<Rightarrow> Inl (MissingToolNameOrParameters i)
      | Some p \<Rightarrow>
          if \<not> truthy (tool_name op) then Inl (MissingToolNameOrParameters i)
          else (case file_path p of
                  None \<Rightarrow> Inr op
                | Some path \<Rightarrow>
                    if (tool_name op = Some ''write_file'' \<or> tool_name op = Some ''replace_lines'')
                       \<and> path \<noteq> []
                    then (let normalized = normalizeFilePath path
                          in if normalized \<notin> set validPaths then Inl (InvalidFilePath path)
                             else Inr (op\<lparr>parameters := Some (p\<lparr>file_path := Some normalized\<rparr>)\<rparr>))
                    else Inr op))"

fun validateOperations :: "nat \<Rightarrow> toolCall list \<Rightarrow> orchError + toolCall list" where
  \<comment> \<open>the loop from index \<open>i\<close> on\<close>
  "validateOperations i [] = Inr []"
| "validateOperations i (op # ops) =
     (case validateOperation i op of
        Inl e \<Rightarrow> Inl e
      | Inr op' \<Rightarrow>
          (case validateOperations (Suc i) ops of
             Inl e \<Rightarrow> Inl e
           | Inr ops' \<Rightarrow> Inr (op' # ops')))"

text \<open>
  The call of the language model and the parsing of its answer are a parameter: the
  call fails, the answer does not parse, or it is an object with a thought, a plan and
  the operations (\<open>None\<close> where the field is absent or \<open>operations\<close> is not an array).
\<close>

record modelResponse =
  thought :: "string option"
  plan :: "string list option"
  operations :: "toolCall list option"

datatype modelAnswer = CallFailed | Unparseable | Parsed modelResponse

fun joinWith :: "string \<Rightarrow> string list \<Rightarrow> string" where
  \<comment> \<open>\<open>xs.join(sep)\<close>\<close>
  "joinWith sep [] = []"
| "joinWith sep [x] = x"
| "joinWith sep (x # y # xs) = x @ sep @ joinWith sep (y # xs)"

definition chatResponse :: "modelResponse \<Rightarrow> string" where
  "chatResponse r =
     ''Working on it! ''
     @ (case thought r of
          None \<Rightarrow> []
        | Some t \<Rightarrow> if t = [] then [] else takeWhile (\<lambda>c. c \<noteq> CHR ''.'') t @ ''. '')
     @ (case plan r of
          None \<Rightarrow> []
        | Some steps \<Rightarrow>
            if steps = [] then []
            else ''Making these changes: '' @ joinWith '', '' (take 2 steps) @ ''.'')"

definition orchestrate ::
  "session \<Rightarrow> string \<Rightarrow> modelAnswer \<Rightarrow> (orchError + toolCall list) \<times> session" where
  \<comment> \<open>the answer, an error or the validated operations, and the session as stored
      afterwards\<close>
  "orchestrate s userPrompt answer =
     (case answer of
        CallFailed \<Rightarrow> (Inl ModelCallFailed, s)
      | Unparseable \<Rightarrow> (Inl ParseFailed, s)
      | Parsed r \<Rightarrow>
          (case operations r of
             None \<Rightarrow> (Inl MissingOperations, s)
           | Some ops \<Rightarrow>
               (case validateOperations 0 ops of
                  Inl e \<Rightarrow> (Inl e, s)
                | Inr toolCalls \<Rightarrow>
                    (Inr toolCalls,
                     s\<lparr>chat_history :=
                          chat_history s @ [(User, userPrompt), (Assistant, chatResponse r)],
                        status := Orchestrating\<rparr>))))"

section \<open>One cycle: the orchestrator, then the executor\<close>

datatype cycleError = OrchestrationError orchError | ExecutionError fatal

definition runCycle ::
  "(nat \<Rightarrow> string \<Rightarrow> string \<Rightarrow> string + string) \<Rightarrow> regExp
     \<Rightarrow> (summaryLine list \<Rightarrow> string option)
     \<Rightarrow> modelAnswer \<Rightarrow> session \<Rightarrow> string \<Rightarrow> (cycleError + string) \<times> session" where
  \<comment> \<open>\<open>handleSendMessage\<close>: \<open>orchestrate-changes\<close> is invoked, and \<open>execute-tool-calls\<close>
      with its \<open>toolCalls\<close> only if it did not fail\<close>
  "runCycle gen regExp summarize answer s userPrompt =
     (case orchestrate s userPrompt answer of
        (Inl e, s') \<Rightarrow> (Inl (OrchestrationError e), s')
      | (Inr toolCalls, s') \<Rightarrow>
          (case execute gen regExp summarize s' toolCalls of
             (Inl e, s'') \<Rightarrow> (Inl (ExecutionError e), s'')
           | (Inr response, s'') \<Rightarrow> (Inr response, s'')))"

section \<open>GameSandbox: assembling the document\<close>

datatype diagnostic =
    FragmentDoctype   \<comment> \<open>\<open>FRAGMENT ERROR: html_code should not contain <!DOCTYPE html>\<close>\<close>
  | FragmentHtmlTag   \<comment> \<open>\<open>FRAGMENT ERROR: html_code should not contain <html> tag\<close>\<close>
  | FragmentHeadTag   \<comment> \<open>\<open>FRAGMENT ERROR: html_code should not contain <head> tag\<close>\<close>
  | FragmentBodyTag   \<comment> \<open>\<open>FRAGMENT ERROR: html_code should not contain <body> tag\<close>\<close>
  | UnclosedDiv nat nat   \<comment> \<open>\<open>ASSEMBLED HTML: Unclosed div tags (n open, m close)\<close>\<close>
  | MultipleScripts   \<comment> \<open>\<open>ASSEMBLED HTML: Multiple script tags detected in body\<close>\<close>

definition validateFragment :: "string \<Rightarrow> diagnostic list" where
  "validateFragment html =
     (if includes_str html ''<!DOCTYPE html>'' then [FragmentDoctype] else [])
     @ (if includes_str html ''<html'' then [FragmentHtmlTag] else [])
     @ (if includes_str html ''<head>'' then [FragmentHeadTag] else [])
     @ (if includes_str html ''<body>'' then [FragmentBodyTag] else [])"

definition tagOpenMatch :: "string \<Rightarrow> string \<Rightarrow> nat option" where
  \<comment> \<open>\<open>/<div[^>]*>/g\<close> and \<open>/<script[^>]*>/g\<close>, for the text \<open><div\<close> or \<open><script\<close>\<close>
  "tagOpenMatch t s =
     (if startsWith t s \<and> CHR ''>'' \<in> set (drop (length t) s)
      then Some (length t + length (takeWhile (\<lambda>c. c \<noteq> CHR ''>'') (drop (length t) s)) + 1)
      else None)"

definition literalMatch :: "string \<Rightarrow> string \<Rightarrow> nat option" where
  \<comment> \<open>\<open>/<\/div>/g\<close>\<close>
  "literalMatch t s = (if startsWith t s then Some (length t) else None)"

fun afterFirst :: "string \<Rightarrow> string \<Rightarrow> string option" where
  \<comment> \<open>what follows the first occurrence of \<open>p\<close>\<close>
  "afterFirst p [] = (if p = [] then Some [] else None)"
| "afterFirst p (c # cs) =
     (if startsWith p (c # cs) then Some (drop (length p) (c # cs)) else afterFirst p cs)"

fun beforeLast :: "string \<Rightarrow> string \<Rightarrow> string option" where
  \<comment> \<open>what comes before the last occurrence of \<open>p\<close>\<close>
  "beforeLast p [] = (if p = [] then Some [] else None)"
| "beforeLast p (c # cs) =
     (case beforeLast p cs of
        Some r \<Rightarrow> Some (c # r)
      | None \<Rightarrow> if startsWith p (c # cs) then Some [] else None)"

definition bodyMatch :: "string \<Rightarrow> string option" where
  \<comment> \<open>group 1 of \<open>html.match(/<body>([\s\S]*)<\/body>/)\<close>: from the first \<open><body>\<close> to
      the last \<open></body>\<close> after it\<close>
  "bodyMatch html =
     (case afterFirst ''<body>'' html of None \<Rightarrow> None | Some r \<Rightarrow> beforeLast ''</body>'' r)"

definition validateAssembledHTML :: "string \<Rightarrow> diagnostic list" where
  "validateAssembledHTML html =
     (let divOpen = countMatches (tagOpenMatch ''<div'') html;
          divClose = countMatches (literalMatch ''</div>'') html
      in (if divOpen \<noteq> divClose then [UnclosedDiv divOpen divClose] else [])
         @ (case bodyMatch html of
              None \<Rightarrow> []
            | Some bodyContent \<Rightarrow>
                if countMatches (tagOpenMatch ''<script'') bodyContent > 1
                then [MultipleScripts] else []))"

definition documentHead :: string where
  \<open>documentHead =
       ''<!DOCTYPE html>\<newline>''
     @ ''<html>\<newline>''
     @ ''<head>\<newline>''
     @ ''  <meta charset="UTF-8">\<newline>''
     @ ''  <meta name="viewport" content="width=device-width, initial-scale=1.0">\<newline>''
     @ ''  <style>\<newline>''
     @ ''    body { margin: 0; padding: 0; overflow: hidden; }\<newline>''
     @ ''    ''\<close>

definition documentMiddle :: string where
  \<open>documentMiddle =
       ''\<newline>''
     @ ''  </style>\<newline>''
     @ ''</head>\<newline>''
     @ ''<body>\<newline>''
     @ ''  ''\<close>

definition documentScript :: string where
  \<open>documentScript =
       ''\<newline>''
     @ ''  <script>\<newline>''
     @ ''    // Error capturing - JavaScript Runtime\<newline>''
     @ ''    window.onerror = function(message, source, lineno, colno, error) {\<newline>''
     @ ''      window.parent.postMessage({\<newline>''
     @ ''        type: \'game_error\',\<newline>''
     @ ''        error: \'JS RUNTIME: \' + message + \' at \' + source + \':\' + lineno + \':\' + colno\<newline>''
     @ ''      }, \'*\');\<newline>''
     @ ''      return true;\<newline>''
     @ ''    };\<newline>''
     @ ''\<newline>''
     @ ''    window.addEventListener(\'unhandledrejection\', function(event) {\<newline>''
     @ ''      window.parent.postMessage({\<newline>''
     @ ''        type: \'game_error\',\<newline>''
     @ ''        error: \'JS PROMISE: Unhandled Promise Rejection: \' + event.reason\<newline>''
     @ ''      }, \'*\');\<newline>''
     @ ''    });\<newline>''
     @ ''\<newline>''
     @ ''    // DOM Validation - Check if expected elements exist\<newline>''
     @ ''    window.addEventListener(\'DOMContentLoaded\', function() {\<newline>''
     @ ''      const expectedElements = document.querySelectorAll(\'[id]\');\<newline>''
     @ ''      if (expectedElements.length === 0) {\<newline>''
     @ ''        window.parent.postMessage({\<newline>''
     @ ''          type: \'game_error\',\<newline>''
     @ ''          error: \'DOM VALIDATION: No elements with IDs found - possible HTML corruption\'\<newline>''
     @ ''        }, \'*\');\<newline>''
     @ ''      }\<newline>''
     @ ''      \<newline>''
     @ ''      // Check for orphaned script/style tags in body\<newline>''
     @ ''      const bodyScripts = document.body.querySelectorAll(\'script\');\<newline>''
     @ ''      const bodyStyles = document.body.querySelectorAll(\'style\');\<newline>''
     @ ''      if (bodyScripts.length > 1) {\<newline>''
     @ ''        window.parent.postMessage({\<newline>''
     @ ''          type: \'game_error\',\<newline>''
     @ ''          error: \'DOM WARNING: Multiple script tags in body detected\'\<newline>''
     @ ''        }, \'*\');\<newline>''
     @ ''      }\<newline>''
     @ ''      if (bodyStyles.length > 0) {\<newline>''
     @ ''        window.parent.postMessage({\<newline>''
     @ ''          type: \'game_error\',\<newline>''
     @ ''          error: \'DOM WARNING: Style tags found in body instead of head\'\<newline>''
     @ ''        }, \'*\');\<newline>''
     @ ''      }\<newline>''
     @ ''    });\<newline>''
     @ ''\<newline>''
     @ ''    // Game code\<newline>''
     @ ''    ''\<close>

definition documentTail :: string where
  \<open>documentTail =
       ''\<newline>''
     @ ''  </script>\<newline>''
     @ ''</body>\<newline>''
     @ ''</html>''\<close>

definition constructedHtml :: "string \<Rightarrow> string \<Rightarrow> string \<Rightarrow> bool \<Rightarrow> string \<times> diagnostic list" where
  \<comment> \<open>the document, and the messages passed to \<open>onError\<close> in order; the last argument
      says whether the property \<open>onError\<close> is given\<close>
  "constructedHtml htmlCode cssCode jsCode onError =
     (if htmlCode = [] then ([], [])
      else (let fragmentErrors = validateFragment htmlCode;
                assembledHtml = documentHead @ cssCode @ documentMiddle @ htmlCode
                                @ documentScript @ jsCode @ documentTail;
                assembledErrors = validateAssembledHTML assembledHtml
            in (assembledHtml, if onError then fragmentErrors @ assembledErrors else [])))"

text \<open>
  The copy of the component under \<open>src/components\<close> builds the same document, but its
  first check is \<open>validateStructure\<close>, written for a whole document.
\<close>

datatype structuralError =
    MissingDocument        \<comment> \<open>\<open>STRUCTURAL: Missing HTML document structure\<close>\<close>
  | UnclosedDivTags nat nat   \<comment> \<open>\<open>STRUCTURAL: Unclosed div tags (n open, m close)\<close>\<close>
  | StyleInBody            \<comment> \<open>\<open>STRUCTURAL: <style> tag found in body instead of head\<close>\<close>
  | ScriptInHead           \<comment> \<open>\<open>WARNING: <script> tag in head may cause issues\<close>\<close>

fun indexOf :: "string \<Rightarrow> string \<Rightarrow> int" where
  \<comment> \<open>\<open>s.indexOf(p)\<close>: where \<open>p\<close> first occurs in \<open>s\<close>, or \<open>-1\<close>\<close>
  "indexOf [] p = (if p = [] then 0 else - 1)"
| "indexOf (c # cs) p =
     (if startsWith p (c # cs) then 0
      else (let i = indexOf cs p in if i < 0 then - 1 else i + 1))"

definition validateStructure :: "string \<Rightarrow> structuralError list" where
  "validateStructure html =
     (let divOpen = countMatches (tagOpenMatch ''<div'') html;
          divClose = countMatches (literalMatch ''</div>'') html;
          scriptInHead = (indexOf html ''<script>'' < indexOf html ''</head>'')
      in (if \<not> includes_str html ''<!DOCTYPE html>'' \<and> \<not> includes_str html ''<html''
          then [MissingDocument] else [])
         @ (if divOpen \<noteq> divClose then [UnclosedDivTags divOpen divClose] else [])
         @ (if includes_str html ''<style>'' \<and> indexOf html ''<style>'' > indexOf html ''<body>''
            then [StyleInBody] else [])
         @ (if scriptInHead then [ScriptInHead] else []))"

section \<open>Notions used in the statements\<close>

definition operation :: "string \<Rightarrow> toolParams \<Rightarrow> toolCall" where
  \<comment> \<open>the object \<open>{ tool_name: t, parameters: p }\<close>\<close>
  "operation t p =
     \<lparr>tool_name = Some t, parameters = Some p, params = None, arguments = None, args = None\<rparr>"

definition wrapperDiagnostic :: "diagnostic \<Rightarrow> bool" where
  "wrapperDiagnostic d =
     (d \<in> {FragmentDoctype, FragmentHtmlTag, FragmentHeadTag, FragmentBodyTag})"


















section \<open>Properties of the line operations\<close>

lemma split_nl_nonempty: "split_nl s \<noteq> []"
  by (induction s) (auto split: list.splits)

lemma split_nl_no_newline: "l \<in> set (split_nl s) \<Longrightarrow> newline \<notin> set l"
proof (induction s arbitrary: l)
  case Nil
  then show ?case by simp
next
  case (Cons c cs)
  show ?case
  proof (cases "c = newline")
    case True
    with Cons show ?thesis by auto
  next
    case False
    obtain h t where ht: "split_nl cs = h # t"
      using split_nl_nonempty [of cs] by (cases "split_nl cs") auto
    with False Cons.prems have "l = c # h \<or> l \<in> set t" by auto
    then show ?thesis
    proof
      assume "l = c # h"
      moreover have "newline \<notin> set h" using Cons.IH [of h] ht by simp
      ultimately show ?thesis using False by auto
    next
      assume "l \<in> set t"
      then show ?thesis using Cons.IH [of l] ht by simp
    qed
  qed
qed

lemma split_nl_append_line:
  "newline \<notin> set l \<Longrightarrow> split_nl (l @ newline # s) = l # split_nl s"
  by (induction l) (auto split: list.splits)

lemma split_nl_single: "newline \<notin> set l \<Longrightarrow> split_nl l = [l]"
  by (induction l) (auto split: list.splits)

lemma split_join_nl:
  "ls \<noteq> [] \<Longrightarrow> (\<forall>l \<in> set ls. newline \<notin> set l) \<Longrightarrow> split_nl (join_nl ls) = ls"
proof (induction ls rule: join_nl.induct)
  case 1
  then show ?case by simp
next
  case (2 l)
  then show ?case by (simp add: split_nl_single)
next
  case (3 l m ls)
  then show ?case by (simp add: split_nl_append_line)
qed

lemma join_split_nl: "join_nl (split_nl s) = s"
proof (induction s)
  case Nil
  then show ?case by simp
next
  case (Cons c cs)
  obtain h t where ht: "split_nl cs = h # t"
    using split_nl_nonempty [of cs] by (cases "split_nl cs") auto
  show ?case
  proof (cases "c = newline")
    case True
    with Cons ht show ?thesis by simp
  next
    case False
    with Cons ht show ?thesis by (cases t) auto
  qed
qed

lemma split_replaceLines:
  assumes "1 \<le> start" "start \<le> end" "end \<le> int (length (split_nl code))"
  shows "replaceLines code start end newContent =
           (join_nl (take (nat (start - 1)) (split_nl code) @ split_nl newContent
                     @ drop (nat end) (split_nl code)), None)"
    and "split_nl (fst (replaceLines code start end newContent)) =
           take (nat (start - 1)) (split_nl code) @ split_nl newContent
           @ drop (nat end) (split_nl code)"
proof -
  have idx: "nat (start - 1) + nat (end - start + 1) = nat end"
    using assms by linarith
  show eq: "replaceLines code start end newContent =
           (join_nl (take (nat (start - 1)) (split_nl code) @ split_nl newContent
                     @ drop (nat end) (split_nl code)), None)"
    using assms by (simp add: replaceLines_def Let_def splice_def idx)
  have ne: "take (nat (start - 1)) (split_nl code) @ split_nl newContent
              @ drop (nat end) (split_nl code) \<noteq> []"
    by (simp add: split_nl_nonempty)
  have nn: "\<forall>l \<in> set (take (nat (start - 1)) (split_nl code) @ split_nl newContent
              @ drop (nat end) (split_nl code)). newline \<notin> set l"
    by (auto dest: in_set_takeD in_set_dropD split_nl_no_newline)
  show "split_nl (fst (replaceLines code start end newContent)) =
           take (nat (start - 1)) (split_nl code) @ split_nl newContent
           @ drop (nat end) (split_nl code)"
    unfolding eq fst_conv by (rule split_join_nl [OF ne nn])
qed

text \<open>
  The helper alone. A \<open>replaceLines\<close> whose range satisfies \<open>1 \<le> start \<le> end \<le> lineCount\<close>
  succeeds; the line count of its result is the original line count minus
  \<open>end - start + 1\<close> plus the number of lines of the new content; the lines before
  \<open>start\<close> and the lines after \<open>end\<close> are those of the original, unchanged and in
  the same order.
\<close>

lemma replaceLines_frame:
  assumes "1 \<le> start" "start \<le> end" "end \<le> int (length (split_nl code))"
  shows "snd (replaceLines code start end newContent) = None
       \<and> int (length (split_nl (fst (replaceLines code start end newContent)))) =
           int (length (split_nl code)) - (end - start + 1)
           + int (length (split_nl newContent))
       \<and> take (nat (start - 1)) (split_nl (fst (replaceLines code start end newContent))) =
           take (nat (start - 1)) (split_nl code)
       \<and> drop (nat (start - 1) + length (split_nl newContent))
            (split_nl (fst (replaceLines code start end newContent))) =
           drop (nat end) (split_nl code)"
proof -
  let ?ls = "split_nl code"
  let ?new = "split_nl newContent"
  have sp: "split_nl (fst (replaceLines code start end newContent)) =
              take (nat (start - 1)) ?ls @ ?new @ drop (nat end) ?ls"
    by (rule split_replaceLines(2) [OF assms])
  have len_take: "length (take (nat (start - 1)) ?ls) = nat (start - 1)"
    using assms by simp
  have c1: "snd (replaceLines code start end newContent) = None"
    by (simp add: split_replaceLines(1) [OF assms])
  have c2: "int (length (split_nl (fst (replaceLines code start end newContent)))) =
           int (length ?ls) - (end - start + 1) + int (length ?new)"
    unfolding sp using assms by simp
  have c3: "take (nat (start - 1)) (split_nl (fst (replaceLines code start end newContent))) =
           take (nat (start - 1)) ?ls"
    unfolding sp using len_take by simp
  have c4: "drop (nat (start - 1) + length ?new)
            (split_nl (fst (replaceLines code start end newContent))) = drop (nat end) ?ls"
    unfolding sp using len_take by simp
  from c1 c2 c3 c4 show ?thesis by blast
qed

lemma replaceLines_frame_example:
  "snd (replaceLines ''a\<newline>b\<newline>c'' 2 2 ''x\<newline>y'') = None
   \<and> fst (replaceLines ''a\<newline>b\<newline>c'' 2 2 ''x\<newline>y'') = ''a\<newline>x\<newline>y\<newline>c''
   \<and> int (length (split_nl (fst (replaceLines ''a\<newline>b\<newline>c'' 2 2 ''x\<newline>y'')))) = 4
   \<and> take 1 (split_nl (fst (replaceLines ''a\<newline>b\<newline>c'' 2 2 ''x\<newline>y''))) = [''a'']
   \<and> drop 3 (split_nl (fst (replaceLines ''a\<newline>b\<newline>c'' 2 2 ''x\<newline>y''))) = [''c'']"
proof -
  have h: "(1::int) \<le> 2" "(2::int) \<le> 2" "2 \<le> int (length (split_nl ''a\<newline>b\<newline>c''))"
    by (simp_all add: newline_def)
  have r: "fst (replaceLines ''a\<newline>b\<newline>c'' 2 2 ''x\<newline>y'') = ''a\<newline>x\<newline>y\<newline>c''"
    by (simp add: replaceLines_def splice_def newline_def)
  show ?thesis
    using replaceLines_frame [OF h, of "''x\<newline>y''"] r
    by (simp add: newline_def)
qed

section \<open>Properties of GameSandbox\<close>

text \<open>
  C10. With an empty structure fragment \<open>GameSandbox\<close> builds no document: the result is
  the empty text and nothing is reported, whatever the style and behavior fragments are.
\<close>

theorem constructedHtml_empty: "constructedHtml [] cssCode jsCode onError = ([], [])"
  by (simp add: constructedHtml_def)

lemma validateFragment_wrapper:
  "(\<exists>d \<in> set (validateFragment h). wrapperDiagnostic d) =
     (includes_str h ''<!DOCTYPE html>'' \<or> includes_str h ''<html''
      \<or> includes_str h ''<head>'' \<or> includes_str h ''<body>'')"
  by (auto simp: validateFragment_def wrapperDiagnostic_def split: if_splits)

lemma validateAssembledHTML_no_wrapper: "d \<in> set (validateAssembledHTML h) \<Longrightarrow> \<not> wrapperDiagnostic d"
  by (auto simp: validateAssembledHTML_def wrapperDiagnostic_def Let_def split: if_splits option.splits)

text \<open>
  With \<open>onError\<close> given, the diagnostics for a wrapper are those of \<open>validateFragment\<close>:
  a structure fragment gets one exactly if it holds one of the four texts
  \<open><!DOCTYPE html>\<close>, \<open><html\<close>, \<open><head>\<close> and \<open><body>\<close>, letter for letter.
\<close>

lemma literal_wrapper_diagnostics:
  "(\<exists>d \<in> set (snd (constructedHtml h c j True)). wrapperDiagnostic d) =
     (includes_str h ''<!DOCTYPE html>'' \<or> includes_str h ''<html''
      \<or> includes_str h ''<head>'' \<or> includes_str h ''<body>'')"
proof (cases "h = []")
  case True
  then show ?thesis by (simp add: constructedHtml_def)
next
  case False
  then have "(\<exists>d \<in> set (snd (constructedHtml h c j True)). wrapperDiagnostic d) =
      (\<exists>d \<in> set (validateFragment h). wrapperDiagnostic d)"
    by (auto simp: constructedHtml_def Let_def dest: validateAssembledHTML_no_wrapper)
  then show ?thesis by (simp only: validateFragment_wrapper)
qed

text \<open>
  C8, at concrete fragments. A \<open>body\<close> wrapper with an attribute, a wrapper written in
  capitals and a doctype in lower case are wrappers of a whole document, and none of them
  is reported: \<open>validateFragment\<close> looks for the texts \<open><head>\<close> and \<open><body>\<close> with the
  closing \<open>>\<close> (while \<open><html\<close> is looked for without it) and for the one spelling
  \<open><!DOCTYPE html>\<close>. The document is built all the same, and the other check,
  \<open>validateAssembledHTML\<close>, has no diagnostic for wrappers.
\<close>

theorem wrapper_with_attribute_not_reported:
  \<open>validateFragment ''<body class="game"><canvas id="game"></canvas></body>'' = []
   \<and> validateFragment ''<BODY><canvas id="game"></canvas></BODY>'' = []
   \<and> validateFragment ''<!doctype html><canvas id="game"></canvas>'' = []
   \<and> validateFragment ''<head lang="en"></head><canvas id="game"></canvas>'' = []
   \<and> \<not> (\<exists>d \<in> set (snd (constructedHtml
              ''<body class="game"><canvas id="game"></canvas></body>'' [] [] True)).
           wrapperDiagnostic d)
   \<and> validateFragment ''<html lang="en"><canvas id="game"></canvas></html>'' = [FragmentHtmlTag]\<close>
proof -
  have a: \<open>validateFragment ''<body class="game"><canvas id="game"></canvas></body>'' = []\<close>
    by (simp add: validateFragment_def)
  have b: \<open>validateFragment ''<BODY><canvas id="game"></canvas></BODY>'' = []\<close>
    by (simp add: validateFragment_def)
  have c: \<open>validateFragment ''<!doctype html><canvas id="game"></canvas>'' = []\<close>
    by (simp add: validateFragment_def)
  have d: \<open>validateFragment ''<head lang="en"></head><canvas id="game"></canvas>'' = []\<close>
    by (simp add: validateFragment_def)
  have e: \<open>\<not> (\<exists>d \<in> set (snd (constructedHtml
              ''<body class="game"><canvas id="game"></canvas></body>'' [] [] True)).
           wrapperDiagnostic d)\<close>
    using a by (auto simp: constructedHtml_def Let_def dest: validateAssembledHTML_no_wrapper)
  have f: \<open>validateFragment ''<html lang="en"><canvas id="game"></canvas></html>'' = [FragmentHtmlTag]\<close>
    by (simp add: validateFragment_def)
  from a b c d e f show ?thesis by blast
qed

text \<open>
  The check of the other copy, \<open>validateStructure\<close>, goes the other way: it reports a
  fragment without wrappers, and reports nothing on the wrapper \<open><html>\<close> alone.
\<close>

lemma validateStructure_examples:
  \<open>validateStructure ''<canvas id="game"></canvas>'' = [MissingDocument]\<close>
  \<open>validateStructure ''<html>'' = []\<close>
  by (simp_all add: validateStructure_def tagOpenMatch_def literalMatch_def)

section \<open>Properties of the orchestrator\<close>

lemma validateOperations_fails:
  assumes "op \<in> set ops" "\<And>i. \<exists>e. validateOperation i op = Inl e"
  shows "\<exists>e. validateOperations i ops = Inl e"
  using assms(1)
proof (induction ops arbitrary: i)
  case Nil
  then show ?case by simp
next
  case (Cons a ops)
  show ?case
  proof (cases "validateOperation i a")
    case (Inl e)
    then show ?thesis by simp
  next
    case (Inr a')
    with Cons.prems assms(2) [of i] have "op \<in> set ops" by auto
    from Cons.IH [OF this, of "Suc i"] Inr show ?thesis by auto
  qed
qed

lemma validateOperation_unmappable:
  assumes "tool_name op = Some ''write_file''" "file_path (paramsOf op) = Some path"
    "path \<noteq> []" "normalizeFilePath path \<notin> set validPaths"
  shows "\<exists>e. validateOperation i op = Inl e"
  using assms
  by (cases "parameters op") (auto simp: validateOperation_def paramsOf_def truthy_def Let_def)

text \<open>
  C2. If the operations of the model's answer hold a \<open>write_file\<close> whose path is given
  and is not mapped to \<open>html_code\<close>, \<open>css_code\<close> or \<open>js_code\<close>, the cycle ends with an
  error of the orchestrator and the stored session is the one before the cycle: the
  executor is not called and no fragment changes.
\<close>

theorem unmappable_target_rejected:
  assumes "operations r = Some ops" "op \<in> set ops"
    "tool_name op = Some ''write_file''" "file_path (paramsOf op) = Some path"
    "path \<noteq> []" "normalizeFilePath path \<notin> set validPaths"
  shows "\<exists>e. runCycle gen regExp summarize (Parsed r) s userPrompt
             = (Inl (OrchestrationError e), s)"
proof -
  have "\<exists>e. validateOperations 0 ops = Inl e"
    using assms(2) validateOperation_unmappable [OF assms(3-6)]
    by (rule validateOperations_fails)
  then show ?thesis
    using assms(1) by (auto simp: runCycle_def orchestrate_def)
qed

theorem unmappable_target_rejected_witness:
  \<open>\<exists>e. runCycle (\<lambda>i n p. Inl ''no image'') (\<lambda>src. None) (\<lambda>ls. None)
      (Parsed \<lparr>thought = None, plan = None, operations = Some
         [operation ''write_file'' (noParams\<lparr>file_path := Some ''js_code'', content := Some ''let x = 1;''\<rparr>),
          operation ''write_file'' (noParams\<lparr>file_path := Some ''sprites/ship.js'',
             content := Some ''let y = 2;''\<rparr>)]\<rparr>)
      \<lparr>html_code = Some ''<canvas id="game"></canvas>'', css_code = None, js_code = None,
       asset_urls = None, chat_history = [], status = CodingComplete\<rparr>
      ''add a ship''
    = (Inl (OrchestrationError e),
       \<lparr>html_code = Some ''<canvas id="game"></canvas>'', css_code = None, js_code = None,
        asset_urls = None, chat_history = [], status = CodingComplete\<rparr>)\<close>
proof -
  let ?op = \<open>operation ''write_file'' (noParams\<lparr>file_path := Some ''sprites/ship.js'',
             content := Some ''let y = 2;''\<rparr>)\<close>
  let ?ops = \<open>[operation ''write_file'' (noParams\<lparr>file_path := Some ''js_code'', content := Some ''let x = 1;''\<rparr>), ?op]\<close>
  have h0: "operations \<lparr>thought = None, plan = None, operations = Some ?ops\<rparr> = Some ?ops"
    by simp
  have h1: "tool_name ?op = Some ''write_file''" by (simp add: operation_def)
  have h2: "file_path (paramsOf ?op) = Some ''sprites/ship.js''"
    by (simp add: operation_def paramsOf_def noParams_def)
  have h3: "''sprites/ship.js'' \<noteq> []" by simp
  have h4: "normalizeFilePath ''sprites/ship.js'' \<notin> set validPaths"
    by (simp add: normalizeFilePath_def validPaths_def toLowerCase_def toLowerChar_def)
  have h5: "?op \<in> set ?ops"
    by (rule list.set_intros(2), rule list.set_intros(1))
  show ?thesis
    by (rule unmappable_target_rejected [OF h0 h5 h1 h2 h3 h4])
qed

text \<open>
  The two mappings agree on the paths that the orchestrator lets through: what it
  writes into the operation is mapped by the executor to one of its three fragments.
\<close>

lemma mapFilePath_normalized:
  "normalizeFilePath path \<in> set validPaths
     \<Longrightarrow> mapFilePath (normalizeFilePath path) \<in> {''html'', ''css'', ''js''}"
  by (auto simp: normalizeFilePath_def validPaths_def mapFilePath_def toLowerCase_def
      toLowerChar_def Let_def split: if_splits)

section \<open>Properties of the executor\<close>

lemmas char_defs = isLetter_def isAlnum_def isSpace_def isQuote_def toLowerCase_def
  toLowerChar_def startsWithCI_def endsWithCI_def

lemmas step_defs = codeStep_def write_file_def replace_lines_def replaceHtml_def replaceCss_def
  replaceJs_def push_def operation_def paramsOf_def noParams_def

lemma mapFilePath_examples:
  "mapFilePath ''index.html'' = ''html''" "mapFilePath ''css_code'' = ''css''"
  "mapFilePath ''html_code'' = ''html''" "mapFilePath ''js_code'' = ''js''"
  by (simp_all add: mapFilePath_def char_defs)

lemma externalRefs_Nil: "externalRefs [] = None"
  by (simp add: externalRefs_def)

lemma mapFilePath_Nil: "mapFilePath [] = []"
  by (simp add: mapFilePath_def)

lemma write_file_external:
  assumes "file_path p = Some path" "mapFilePath path = ''html''" "content p = Some c"
    "externalRefs c = Some kind"
  shows "write_file p st = Inl (ExternalReference kind)"
proof -
  have "path \<noteq> []" using assms(2) mapFilePath_Nil by auto
  moreover have "c \<noteq> []" using assms(4) externalRefs_Nil by auto
  ultimately show ?thesis using assms by (simp add: write_file_def)
qed

lemma codeStage_fails:
  assumes "call \<in> set calls" "\<And>st. \<exists>e. codeStep b call st = Inl e"
  shows "\<exists>e. codeStage b calls st = Inl e"
  using assms(1)
proof (induction calls arbitrary: st)
  case Nil
  then show ?case by simp
next
  case (Cons a calls)
  show ?case
  proof (cases "codeStep b a st")
    case (Inl e)
    then show ?thesis by simp
  next
    case (Inr st')
    with Cons.prems assms(2) [of st] have "call \<in> set calls" by auto
    from Cons.IH [OF this, of st'] Inr show ?thesis by simp
  qed
qed

text \<open>
  If a batch holds a \<open>write_file\<close> to the structure fragment whose content matches one of
  the three expressions of the handler, the batch ends with an error and the stored
  session is the one before the batch, whatever the other operations are.
\<close>

lemma matched_reference_aborts_batch:
  assumes "call \<in> set toolCalls" "tool_name call = Some ''write_file''"
    "file_path (paramsOf call) = Some path" "mapFilePath path = ''html''"
    "content (paramsOf call) = Some c" "externalRefs c \<noteq> None"
  shows "\<exists>e. execute gen regExp summarize s toolCalls = (Inl e, s)"
proof -
  obtain kind where k: "externalRefs c = Some kind" using assms(6) by auto
  have step: "\<And>st. \<exists>e. codeStep (html_code s) call st = Inl e"
    using write_file_external [OF assms(3,4,5) k] assms(2) by (simp add: codeStep_def)
  have "\<not> isImageCall call" using assms(2) by (simp add: isImageCall_def)
  with assms(1) have mem: "call \<in> set (filter (\<lambda>call. \<not> isImageCall call) toolCalls)" by simp
  have "\<exists>e. stages gen regExp s toolCalls = Inl e"
  proof (cases "placeholderStage regExp
                  (imageStage gen 0 (filter isImageCall toolCalls) (startState s))")
    case (Inl e)
    then show ?thesis by (simp add: stages_def)
  next
    case (Inr st)
    with codeStage_fails [OF mem step, of st] show ?thesis by (simp add: stages_def)
  qed
  then show ?thesis by (auto simp: execute_def)
qed

lemma toLowerChar_lt: "toLowerChar c = CHR ''<'' \<Longrightarrow> c = CHR ''<''"
  by (simp add: toLowerChar_def split: if_splits)

lemma toLowerChar_id:
  assumes "c \<notin> set ''ABCDEFGHIJKLMNOPQRSTUVWXYZ''"
  shows "toLowerChar c = c"
proof -
  have "map_of (zip ''ABCDEFGHIJKLMNOPQRSTUVWXYZ'' ''abcdefghijklmnopqrstuvwxyz'') c = None"
    using assms by (subst map_of_zip_is_None) simp_all
  then show ?thesis by (simp only: toLowerChar_def option.case)
qed

lemmas ci_defs = isLetter_def isAlnum_def isSpace_def isQuote_def toLowerCase_def
  toLowerChar_id startsWithCI_def endsWithCI_def

lemma startsWithCI_lt: "startsWithCI (CHR ''<'' # p) (c # cs) \<Longrightarrow> c = CHR ''<''"
  by (rule toLowerChar_lt) (simp add: startsWithCI_def toLowerCase_def)

text \<open>
  Each of the three expressions starts with \<open><\<close> and the name of its tag, so it matches
  nowhere else.
\<close>

lemma no_ref_match:
  assumes "c \<noteq> CHR ''<''"
  shows "\<not> scriptRefMatch (c # cs)" "\<not> linkRefMatch (c # cs)" "\<not> imgRefMatch (c # cs)"
proof -
  have n: "\<not> startsWithCI (CHR ''<'' # p) (c # cs)" for p
    using assms startsWithCI_lt by blast
  show "\<not> scriptRefMatch (c # cs)"
    using n [of "''script''"] by (simp add: scriptRefMatch_def Let_def)
  show "\<not> linkRefMatch (c # cs)"
    using n [of "''link''"] by (simp add: linkRefMatch_def split: list.splits)
  show "\<not> imgRefMatch (c # cs)"
    using n [of "''img''"] by (simp add: imgRefMatch_def split: list.splits)
qed

lemma prefix_needed:
  "\<not> startsWithCI ''<script'' s \<Longrightarrow> \<not> scriptRefMatch s"
  "\<not> startsWithCI ''<link'' s \<Longrightarrow> \<not> linkRefMatch s"
  "\<not> startsWithCI ''<img'' s \<Longrightarrow> \<not> imgRefMatch s"
  by (auto simp: scriptRefMatch_def linkRefMatch_def imgRefMatch_def Let_def split: list.splits)

lemma externalRefs_examples:
  \<open>externalRefs ''<script src="game.js"></script>'' = Some ScriptFiles\<close>
  \<open>externalRefs ''<link rel="stylesheet" href="style.css">'' = Some CssFiles\<close>
  \<open>externalRefs ''<img id="ship" src="ship.png">'' = Some ImageFiles\<close>
  by (simp_all add: externalRefs_def no_ref_match)
     (simp_all add: prefix_needed startsWithCI_def toLowerCase_def toLowerChar_id,
      simp_all add: scriptRefMatch_def linkRefMatch_def imgRefMatch_def quotedTarget_def ci_defs)

text \<open>
  C3, at a concrete batch. The stored structure fragment is \<open><canvas id="game"></canvas>\<close>;
  the one operation of the batch writes a structure fragment that loads the local file
  \<open>game.js\<close> with \<open><script type="module" src="game.js">\<close>. The expression for script
  files asks for \<open>src\<close> right after \<open><script\<close> and its white space: it matches
  \<open><script src="game.js">\<close>, but another attribute before \<open>src\<close> hides the reference
  (the expressions for style sheets and images let other attributes come first). None of
  the three expressions matches, the write is carried out, and the batch ends with the new
  fragment stored.
\<close>

theorem script_reference_after_attribute_stored:
  \<open>externalRefs ''<script src="game.js"></script>'' = Some ScriptFiles
   \<and> externalRefs ''<canvas id="game"></canvas><script type="module" src="game.js"></script>'' = None
   \<and> execute (\<lambda>i n p. Inl ''no image'') (\<lambda>src. None) (\<lambda>ls. None)
      \<lparr>html_code = Some ''<canvas id="game"></canvas>'', css_code = None, js_code = None,
       asset_urls = None, chat_history = [], status = Orchestrating\<rparr>
      [operation ''write_file'' (noParams\<lparr>file_path := Some ''index.html'',
          content := Some ''<canvas id="game"></canvas><script type="module" src="game.js"></script>''\<rparr>)]
    = (Inr defaultChatResponse,
       \<lparr>html_code = Some ''<canvas id="game"></canvas><script type="module" src="game.js"></script>'',
        css_code = None, js_code = None, asset_urls = None,
        chat_history = [(Assistant, defaultChatResponse)], status = CodingComplete\<rparr>)\<close>
proof -
  let ?c = \<open>''<canvas id="game"></canvas><script type="module" src="game.js"></script>''\<close>
  let ?call = \<open>operation ''write_file'' (noParams\<lparr>file_path := Some ''index.html'',
          content := Some ?c\<rparr>)\<close>
  have x: \<open>externalRefs ?c = None\<close>
    by (simp add: externalRefs_def no_ref_match)
       (simp add: prefix_needed startsWithCI_def toLowerCase_def toLowerChar_id,
        simp add: scriptRefMatch_def ci_defs)
  have m: "mapFilePath ''index.html'' = ''html''" by (rule mapFilePath_examples)
  have f: "filter isImageCall [?call] = []" "filter (\<lambda>call. \<not> isImageCall call) [?call] = [?call]"
    by (simp_all add: isImageCall_def operation_def)
  have w: \<open>codeStep (Some ''<canvas id="game"></canvas>'') ?call
      \<lparr>html_code = Some ''<canvas id="game"></canvas>'', css_code = None, js_code = None,
       asset_urls = None, imageUrlMap = [], actionsSummary = []\<rparr>
     = Inr \<lparr>html_code = Some ?c, css_code = None, js_code = None,
       asset_urls = None, imageUrlMap = [], actionsSummary = [Wrote ''html'']\<rparr>\<close>
    using x m by (simp add: step_defs)
  have e: \<open>execute (\<lambda>i n p. Inl ''no image'') (\<lambda>src. None) (\<lambda>ls. None)
      \<lparr>html_code = Some ''<canvas id="game"></canvas>'', css_code = None, js_code = None,
       asset_urls = None, chat_history = [], status = Orchestrating\<rparr> [?call]
    = (Inr defaultChatResponse,
       \<lparr>html_code = Some ?c, css_code = None, js_code = None, asset_urls = None,
        chat_history = [(Assistant, defaultChatResponse)], status = CodingComplete\<rparr>)\<close>
    unfolding execute_def stages_def f
    using w by (simp add: startState_def placeholderStage_def chatResponseOf_def)
  from externalRefs_examples(1) x e show ?thesis by (intro conjI)
qed

text \<open>
  C9, as the code has it. A \<open>write_file\<close> whose path is mapped to one of the three
  fragments and whose content is not empty and, for the structure fragment, matches none
  of the patterns for external files, succeeds: the fragment becomes the content, the
  other two fragments are kept, and one line is added to the summary.
\<close>

theorem write_file_replaces_fragment:
  assumes "tool_name call = Some ''write_file''"
    "file_path (paramsOf call) = Some path" "content (paramsOf call) = Some c" "c \<noteq> []"
    "mapFilePath path \<in> {''html'', ''css'', ''js''}"
    "mapFilePath path = ''html'' \<longrightarrow> externalRefs c = None"
  shows "\<exists>st'. codeStep b call st = Inr st'
      \<and> html_code st' = (if mapFilePath path = ''html'' then Some c else html_code st)
      \<and> css_code st' = (if mapFilePath path = ''css'' then Some c else css_code st)
      \<and> js_code st' = (if mapFilePath path = ''js'' then Some c else js_code st)
      \<and> actionsSummary st' = actionsSummary st @ [Wrote (mapFilePath path)]"
proof -
  have "path \<noteq> []" using assms(5) mapFilePath_Nil by auto
  then show ?thesis
    using assms by (auto simp: codeStep_def write_file_def push_def Let_def)
qed


theorem write_file_replaces_fragment_witness:
  \<open>\<exists>st'. codeStep None
     (operation ''write_file'' (noParams\<lparr>file_path := Some ''css_code'', content := Some ''a { }''\<rparr>))
     \<lparr>html_code = None, css_code = Some ''body { color: red; }'', js_code = None,
      asset_urls = None, imageUrlMap = [], actionsSummary = []\<rparr> = Inr st'
    \<and> html_code st' = None \<and> css_code st' = Some ''a { }'' \<and> js_code st' = None
    \<and> actionsSummary st' = [Wrote ''css'']\<close>
proof -
  let ?call = \<open>operation ''write_file'' (noParams\<lparr>file_path := Some ''css_code'', content := Some ''a { }''\<rparr>)\<close>
  have m: "mapFilePath ''css_code'' = ''css''" by (rule mapFilePath_examples)
  have h1: "tool_name ?call = Some ''write_file''" by (simp add: operation_def)
  have h2: "file_path (paramsOf ?call) = Some ''css_code''"
    by (simp add: operation_def paramsOf_def noParams_def)
  have h3: \<open>content (paramsOf ?call) = Some ''a { }''\<close>
    by (simp add: operation_def paramsOf_def noParams_def)
  have h4: \<open>''a { }'' \<noteq> []\<close> by simp
  have h5: "mapFilePath ''css_code'' \<in> {''html'', ''css'', ''js''}" using m by simp
  have h6: \<open>mapFilePath ''css_code'' = ''html'' \<longrightarrow> externalRefs ''a { }'' = None\<close> using m by simp
  show ?thesis
    using write_file_replaces_fragment [OF h1 h2 h3 h4 h5 h6, of None \<open>\<lparr>html_code = None, css_code = Some ''body { color: red; }'', js_code = None,
      asset_urls = None, imageUrlMap = [], actionsSummary = []\<rparr>\<close>] m
    by simp
qed


text \<open>
  A \<open>write_file\<close> with the empty text as content is taken as one with a missing
  parameter: the fragment is kept and the summary says that the operation was skipped.
\<close>

theorem write_file_empty_content_skipped:
  \<open>codeStep None
     (operation ''write_file'' (noParams\<lparr>file_path := Some ''css_code'', content := Some ''''\<rparr>))
     \<lparr>html_code = None, css_code = Some ''body { color: red; }'', js_code = None,
      asset_urls = None, imageUrlMap = [], actionsSummary = []\<rparr>
   = Inr \<lparr>html_code = None, css_code = Some ''body { color: red; }'', js_code = None,
      asset_urls = None, imageUrlMap = [], actionsSummary = [SkippedWriteMissing]\<rparr>\<close>
  by (simp add: step_defs)

text \<open>
  C1, at a concrete batch. The fragment \<open><div id="a"></div>\<close> is the stored one; the
  operation replaces its line 1 by \<open><div id="b"></div>\<close>. The result has as many
  opening as closing tags, yet \<open>validateHTML\<close> rejects it, since it looks for
  \<open><!DOCTYPE html>\<close>, \<open><html\<close>, \<open><head>\<close> and \<open><body>\<close>; the fragment is rolled back.
\<close>

theorem replace_lines_balanced_fragment_rolled_back:
  \<open>tagBalanced ''<div id="b"></div>''
   \<and> replaceLines ''<div id="a"></div>'' 1 1 ''<div id="b"></div>'' = (''<div id="b"></div>'', None)
   \<and> validateHTML ''<div id="b"></div>''
       = (False, [MissingDoctype, MissingHtmlTag, MissingHeadTag, MissingBodyTag])
   \<and> codeStep (Some ''<div id="a"></div>'')
     (operation ''replace_lines'' (noParams\<lparr>file_path := Some ''html_code'', start_line := Some 1,
        end_line := Some 1, content := Some ''<div id="b"></div>''\<rparr>))
     \<lparr>html_code = Some ''<div id="a"></div>'', css_code = None, js_code = None,
      asset_urls = None, imageUrlMap = [], actionsSummary = []\<rparr>
   = Inr \<lparr>html_code = Some ''<div id="a"></div>'', css_code = None, js_code = None,
      asset_urls = None, imageUrlMap = [],
      actionsSummary = [ValidationWarning [MissingDoctype, MissingHtmlTag, MissingHeadTag,
         MissingBodyTag], RolledBack]\<rparr>\<close>
proof -
  have r: \<open>replaceLines ''<div id="a"></div>'' 1 1 ''<div id="b"></div>'' = (''<div id="b"></div>'', None)\<close>
    by (simp add: replaceLines_def splice_def newline_def)
  have v: \<open>validateHTML ''<div id="b"></div>''
       = (False, [MissingDoctype, MissingHtmlTag, MissingHeadTag, MissingBodyTag])\<close>
    by (simp add: validateHTML_def openTagMatch_def closeTagMatch_def selfClosingMatch_def char_defs)
  have t: \<open>tagBalanced ''<div id="b"></div>''\<close>
    by (simp add: tagBalanced_def openTagMatch_def closeTagMatch_def selfClosingMatch_def char_defs)
  have m: "mapFilePath ''html_code'' = ''html''" by (rule mapFilePath_examples)
  show ?thesis
    using r v t m by (simp add: step_defs)
qed

text \<open>
  The check of the executor and the check of \<open>GameSandbox\<close> exclude each other: a
  markup that the executor accepts holds all four wrappers, so a fragment for which
  \<open>validateFragment\<close> reports nothing is never accepted, and every \<open>replace_lines\<close> that yields such a
  fragment is rolled back.
\<close>

lemma validateHTML_needs_wrappers:
  "fst (validateHTML html) \<Longrightarrow>
     includes_str html ''<!DOCTYPE html>'' \<and> includes_str html ''<html''
     \<and> includes_str html ''<head>'' \<and> includes_str html ''<body>''"
  by (auto simp: validateHTML_def Let_def split: if_splits)

lemma fragment_never_valid: "validateFragment html = [] \<Longrightarrow> \<not> fst (validateHTML html)"
  using validateHTML_needs_wrappers [of html]
  by (auto simp: validateFragment_def split: if_splits)

lemma replaceHtml_rolls_back:
  assumes "html_code st = Some html" "html \<noteq> []"
    "replaceLines html start end c = (result, None)" "validateFragment result = []"
  shows "replaceHtml backup_html ''html'' start end c st =
           Continue (push [ValidationWarning (snd (validateHTML result)), RolledBack]
                       (st\<lparr>html_code := backup_html\<rparr>))"
  using assms fragment_never_valid [OF assms(4)] by (simp add: replaceHtml_def)

text \<open>
  C5, at a concrete batch. The style fragment is the empty text, which has one line; the
  operation is to replace its lines 5 to 6. The fragment is kept, and the line added to the
  summary is the one of a replacement that was carried out.
\<close>

theorem replace_lines_empty_fragment_reports_success:
  \<open>snd (replaceLines '''' 5 6 ''x'') = Some (LineNumbersOutOfRange 5 6 1)
   \<and> codeStep None
     (operation ''replace_lines'' (noParams\<lparr>file_path := Some ''css_code'', start_line := Some 5,
        end_line := Some 6, content := Some ''x''\<rparr>))
     \<lparr>html_code = None, css_code = Some '''', js_code = None,
      asset_urls = None, imageUrlMap = [], actionsSummary = []\<rparr>
   = Inr \<lparr>html_code = None, css_code = Some '''', js_code = None,
      asset_urls = None, imageUrlMap = [], actionsSummary = [Replaced 5 6 ''css'']\<rparr>\<close>
proof -
  have m: "mapFilePath ''css_code'' = ''css''" by (rule mapFilePath_examples)
  show ?thesis using m by (simp add: step_defs replaceLines_def)
qed

text \<open>
  On a fragment that is not empty, a range out of bounds leaves the fragment as it is and
  adds one line, the error of \<open>replaceLines\<close>.
\<close>

lemma replaceLines_out_of_range:
  assumes "start < 1 \<or> int (length (split_nl code)) < end \<or> end < start"
  shows "\<exists>err. replaceLines code start end c = (code, Some err)"
  using assms by (auto simp: replaceLines_def Let_def)

lemma replace_lines_out_of_range:
  assumes "file_path p = Some path" "path \<noteq> []" "start_line p = Some start"
    "end_line p = Some end" "content p = Some c"
    and "(mapFilePath path = ''html'' \<and> html_code st = Some code)
       \<or> (mapFilePath path = ''css'' \<and> css_code st = Some code)
       \<or> (mapFilePath path = ''js'' \<and> js_code st = Some code)"
    and "code \<noteq> []"
    and "start < 1 \<or> int (length (split_nl code)) < end \<or> end < start"
  shows "\<exists>err. replace_lines backup_html p st = push [ErrorReplacing (mapFilePath path) err] st"
proof -
  obtain err where e: "replaceLines code start end c = (code, Some err)"
    using replaceLines_out_of_range [OF assms(8)] by blast
  from assms(6) show ?thesis
  proof (elim disjE conjE)
    assume "mapFilePath path = ''html''" "html_code st = Some code"
    then show ?thesis
      using assms(1-5,7) e by (auto simp: replace_lines_def replaceHtml_def Let_def)
  next
    assume "mapFilePath path = ''css''" "css_code st = Some code"
    then show ?thesis
      using assms(1-5,7) e
      by (auto simp: replace_lines_def replaceHtml_def replaceCss_def Let_def
          split: option.splits)
  next
    assume "mapFilePath path = ''js''" "js_code st = Some code"
    then show ?thesis
      using assms(1-5,7) e
      by (auto simp: replace_lines_def replaceHtml_def replaceCss_def replaceJs_def Let_def
          split: option.splits)
  qed
qed

lemma replace_lines_falsy_fragment:
  assumes "file_path p = Some path" "path \<noteq> []" "start_line p = Some start"
    "end_line p = Some end" "content p = Some c"
    and "(mapFilePath path = ''html'' \<and> \<not> truthy (html_code st))
       \<or> (mapFilePath path = ''css'' \<and> \<not> truthy (css_code st))
       \<or> (mapFilePath path = ''js'' \<and> \<not> truthy (js_code st))"
  shows "replace_lines backup_html p st = push [Replaced start end (mapFilePath path)] st"
  using assms
  by (auto simp: replace_lines_def replaceHtml_def replaceCss_def replaceJs_def Let_def truthy_def
      split: option.splits)

text \<open>
  On a style or behavior fragment that is not empty, a \<open>replace_lines\<close> whose range is
  within bounds puts the result of \<open>replaceLines\<close> in the place of the fragment and adds the
  line of a replacement carried out; \<open>replaceLines_frame\<close> gives the line count of that
  result and its lines outside the range.
\<close>

lemma replace_lines_in_range:
  assumes "file_path p = Some path" "path \<noteq> []" "start_line p = Some start"
    "end_line p = Some end" "content p = Some c"
    and "code \<noteq> []" "1 \<le> start" "start \<le> end" "end \<le> int (length (split_nl code))"
  shows "mapFilePath path = ''css'' \<Longrightarrow> css_code st = Some code \<Longrightarrow>
           replace_lines backup_html p st =
             push [Replaced start end ''css'']
               (st\<lparr>css_code := Some (fst (replaceLines code start end c))\<rparr>)"
    and "mapFilePath path = ''js'' \<Longrightarrow> js_code st = Some code \<Longrightarrow>
           replace_lines backup_html p st =
             push [Replaced start end ''js'']
               (st\<lparr>js_code := Some (fst (replaceLines code start end c))\<rparr>)"
proof -
  have e: "replaceLines code start end c = (fst (replaceLines code start end c), None)"
    using split_replaceLines(1) [OF assms(7-9), of c] by simp
  show "mapFilePath path = ''css'' \<Longrightarrow> css_code st = Some code \<Longrightarrow>
           replace_lines backup_html p st =
             push [Replaced start end ''css'']
               (st\<lparr>css_code := Some (fst (replaceLines code start end c))\<rparr>)"
    using assms(1-6) e
    by (auto simp: replace_lines_def replaceHtml_def replaceCss_def replaceJs_def Let_def push_def
        split: option.splits prod.splits)
  show "mapFilePath path = ''js'' \<Longrightarrow> js_code st = Some code \<Longrightarrow>
           replace_lines backup_html p st =
             push [Replaced start end ''js'']
               (st\<lparr>js_code := Some (fst (replaceLines code start end c))\<rparr>)"
    using assms(1-6) e
    by (auto simp: replace_lines_def replaceHtml_def replaceCss_def replaceJs_def Let_def push_def
        split: option.splits prod.splits)
qed

text \<open>
  C6, at two concrete operations whose range is within bounds. The style fragment is the
  empty text, which has one line, and the operation replaces line 1 by two lines: the
  fragment is kept as it is, with one line where there should be two, and the summary says
  that the lines were replaced; on the style fragment \<open>x { }\<close> the same operation does
  put the two lines. The structure fragment has three lines and the operation
  replaces line 2 by two lines: \<open>replaceLines\<close> gives the four lines, the check of the
  markup rejects them for the missing wrappers, and the fragment is rolled back to its
  three lines.
\<close>

theorem replace_lines_in_range_not_applied:
  \<open>replaceLines '''' 1 1 ''a { }\<newline>b { }'' = (''a { }\<newline>b { }'', None)
   \<and> codeStep None
     (operation ''replace_lines'' (noParams\<lparr>file_path := Some ''css_code'', start_line := Some 1,
        end_line := Some 1, content := Some ''a { }\<newline>b { }''\<rparr>))
     \<lparr>html_code = None, css_code = Some '''', js_code = None,
      asset_urls = None, imageUrlMap = [], actionsSummary = []\<rparr>
   = Inr \<lparr>html_code = None, css_code = Some '''', js_code = None,
      asset_urls = None, imageUrlMap = [], actionsSummary = [Replaced 1 1 ''css'']\<rparr>
   \<and> codeStep None
     (operation ''replace_lines'' (noParams\<lparr>file_path := Some ''css_code'', start_line := Some 1,
        end_line := Some 1, content := Some ''a { }\<newline>b { }''\<rparr>))
     \<lparr>html_code = None, css_code = Some ''x { }'', js_code = None,
      asset_urls = None, imageUrlMap = [], actionsSummary = []\<rparr>
   = Inr \<lparr>html_code = None, css_code = Some ''a { }\<newline>b { }'', js_code = None,
      asset_urls = None, imageUrlMap = [], actionsSummary = [Replaced 1 1 ''css'']\<rparr>
   \<and> replaceLines ''<p>a</p>\<newline><p>b</p>\<newline><p>c</p>'' 2 2 ''<p>x</p>\<newline><p>y</p>''
       = (''<p>a</p>\<newline><p>x</p>\<newline><p>y</p>\<newline><p>c</p>'', None)
   \<and> codeStep (Some ''<p>a</p>\<newline><p>b</p>\<newline><p>c</p>'')
     (operation ''replace_lines'' (noParams\<lparr>file_path := Some ''html_code'', start_line := Some 2,
        end_line := Some 2, content := Some ''<p>x</p>\<newline><p>y</p>''\<rparr>))
     \<lparr>html_code = Some ''<p>a</p>\<newline><p>b</p>\<newline><p>c</p>'', css_code = None, js_code = None,
      asset_urls = None, imageUrlMap = [], actionsSummary = []\<rparr>
   = Inr \<lparr>html_code = Some ''<p>a</p>\<newline><p>b</p>\<newline><p>c</p>'', css_code = None,
      js_code = None, asset_urls = None, imageUrlMap = [],
      actionsSummary = [ValidationWarning [MissingDoctype, MissingHtmlTag, MissingHeadTag,
         MissingBodyTag], RolledBack]\<rparr>\<close>
proof -
  have r1: \<open>replaceLines '''' 1 1 ''a { }\<newline>b { }'' = (''a { }\<newline>b { }'', None)\<close>
    by (simp add: replaceLines_def splice_def newline_def)
  have mc: "mapFilePath ''css_code'' = ''css''" by (rule mapFilePath_examples)
  have s1: \<open>codeStep None
     (operation ''replace_lines'' (noParams\<lparr>file_path := Some ''css_code'', start_line := Some 1,
        end_line := Some 1, content := Some ''a { }\<newline>b { }''\<rparr>))
     \<lparr>html_code = None, css_code = Some '''', js_code = None,
      asset_urls = None, imageUrlMap = [], actionsSummary = []\<rparr>
   = Inr \<lparr>html_code = None, css_code = Some '''', js_code = None,
      asset_urls = None, imageUrlMap = [], actionsSummary = [Replaced 1 1 ''css'']\<rparr>\<close>
    using mc by (simp add: step_defs)
  have s0: \<open>codeStep None
     (operation ''replace_lines'' (noParams\<lparr>file_path := Some ''css_code'', start_line := Some 1,
        end_line := Some 1, content := Some ''a { }\<newline>b { }''\<rparr>))
     \<lparr>html_code = None, css_code = Some ''x { }'', js_code = None,
      asset_urls = None, imageUrlMap = [], actionsSummary = []\<rparr>
   = Inr \<lparr>html_code = None, css_code = Some ''a { }\<newline>b { }'', js_code = None,
      asset_urls = None, imageUrlMap = [], actionsSummary = [Replaced 1 1 ''css'']\<rparr>\<close>
    using mc by (simp add: step_defs replaceLines_def splice_def newline_def)
  have r2: \<open>replaceLines ''<p>a</p>\<newline><p>b</p>\<newline><p>c</p>'' 2 2 ''<p>x</p>\<newline><p>y</p>''
       = (''<p>a</p>\<newline><p>x</p>\<newline><p>y</p>\<newline><p>c</p>'', None)\<close>
    by (simp add: replaceLines_def splice_def newline_def)
  have v: \<open>validateHTML ''<p>a</p>\<newline><p>x</p>\<newline><p>y</p>\<newline><p>c</p>''
       = (False, [MissingDoctype, MissingHtmlTag, MissingHeadTag, MissingBodyTag])\<close>
    by (simp add: validateHTML_def openTagMatch_def closeTagMatch_def selfClosingMatch_def char_defs)
  have mh: "mapFilePath ''html_code'' = ''html''" by (rule mapFilePath_examples)
  have s2: \<open>codeStep (Some ''<p>a</p>\<newline><p>b</p>\<newline><p>c</p>'')
     (operation ''replace_lines'' (noParams\<lparr>file_path := Some ''html_code'', start_line := Some 2,
        end_line := Some 2, content := Some ''<p>x</p>\<newline><p>y</p>''\<rparr>))
     \<lparr>html_code = Some ''<p>a</p>\<newline><p>b</p>\<newline><p>c</p>'', css_code = None, js_code = None,
      asset_urls = None, imageUrlMap = [], actionsSummary = []\<rparr>
   = Inr \<lparr>html_code = Some ''<p>a</p>\<newline><p>b</p>\<newline><p>c</p>'', css_code = None,
      js_code = None, asset_urls = None, imageUrlMap = [],
      actionsSummary = [ValidationWarning [MissingDoctype, MissingHtmlTag, MissingHeadTag,
         MissingBodyTag], RolledBack]\<rparr>\<close>
    using r2 v mh by (simp add: step_defs)
  from r1 s1 s0 r2 s2 show ?thesis by (intro conjI)
qed

section \<open>The order of the stages\<close>




lemma replacePattern_summary [simp]: "actionsSummary (replacePattern u m st) = actionsSummary st"
  by (simp add: replacePattern_def)

lemma fold_replacePattern_summary [simp]:
  "actionsSummary (fold (replacePattern u) ms st) = actionsSummary st"
  by (induction ms arbitrary: st) simp_all




text \<open>
  The placeholder stage ends the batch only where \<open>new RegExp\<close> throws: for an image
  whose name or URL is outside the expressions translated by hand and for which the
  engine rejects one of the three source texts.
\<close>

lemma patterns_None:
  assumes "patterns regExp n u = None"
  shows "\<not> (literalName n \<and> literalUrl u)" "\<exists>src \<in> set (sources n). regExp src = None"
  using assms
  by (auto simp: patterns_def sources_def split: if_splits option.splits list.splits)

lemma patterns_engine:
  assumes "\<not> (literalName n \<and> literalUrl u)"
    "map regExp (sources n) = [Some p1, Some p2, Some p3]"
  shows "patterns regExp n u = Some [p1, p2, p3]"
  using assms by (auto simp: patterns_def)

lemma replaceImages_Inl:
  "replaceImages regExp xs st = Inl e \<Longrightarrow>
     \<exists>n u. (n, u) \<in> set xs \<and> e = InvalidRegExp n \<and> patterns regExp n u = None"
proof (induction xs arbitrary: st)
  case Nil
  then show ?case by simp
next
  case (Cons nu xs)
  show ?case
  proof (cases "replaceImage regExp nu st")
    case (Inl e')
    with Cons.prems have "e = e'" by simp
    with Inl have "e = InvalidRegExp (fst nu) \<and> patterns regExp (fst nu) (snd nu) = None"
      by (auto simp: replaceImage_def split: option.splits)
    then show ?thesis by (intro exI [of _ "fst nu"] exI [of _ "snd nu"]) simp
  next
    case (Inr st1)
    with Cons.prems have "replaceImages regExp xs st1 = Inl e" by simp
    from Cons.IH [OF this] show ?thesis by auto
  qed
qed

lemma placeholderStage_Inl:
  assumes "placeholderStage regExp st = Inl e"
  shows "\<exists>n u. (n, u) \<in> set (imageUrlMap st) \<and> e = InvalidRegExp n
           \<and> patterns regExp n u = None"
proof -
  from assms have "replaceImages regExp (imageUrlMap st) st = Inl e"
    by (auto simp: placeholderStage_def split: if_splits sum.splits)
  then show ?thesis by (rule replaceImages_Inl)
qed











text \<open>
  A name with a dot is not one of the names translated by hand: whatever the engine
  computes for its three expressions, as long as it accepts them, the batch goes through
  the three stages in the same way (here no fragment is stored when the placeholders are
  replaced, so \<open>replace\<close> is not called).
\<close>

lemma stages_pattern_name:
  \<open>stages (\<lambda>i n p. Inr ''https://x/ship.png'') (\<lambda>src. Some r)
      \<lparr>html_code = None, css_code = None, js_code = None,
       asset_urls = None, chat_history = [], status = Orchestrating\<rparr>
      [operation ''write_file'' (noParams\<lparr>file_path := Some ''js_code'',
          content := Some ''let a = 1;''\<rparr>),
       operation ''generate_image'' (noParams\<lparr>name := Some ''ship.png'', prompt := Some ''a ship''\<rparr>)]
    = Inr \<lparr>html_code = None, css_code = None, js_code = Some ''let a = 1;'',
         asset_urls = Some [''https://x/ship.png''],
         imageUrlMap = [(''ship.png'', ''https://x/ship.png'')],
         actionsSummary = [GeneratedImage ''ship.png'' ''https://x/ship.png'',
           ReplacedPlaceholders 1, Wrote ''js'']\<rparr>\<close>
proof -
  let ?calls = \<open>[operation ''write_file'' (noParams\<lparr>file_path := Some ''js_code'',
          content := Some ''let a = 1;''\<rparr>),
       operation ''generate_image'' (noParams\<lparr>name := Some ''ship.png'', prompt := Some ''a ship''\<rparr>)]\<close>
  have m: "mapFilePath ''js_code'' = ''js''" by (rule mapFilePath_examples)
  have f: "filter isImageCall ?calls = [?calls ! 1]"
    "filter (\<lambda>call. \<not> isImageCall call) ?calls = [?calls ! 0]"
    by (simp_all add: isImageCall_def operation_def)
  have l: "\<not> literalName ''ship.png''" by (simp add: literalName_def regexMeta_def)
  show ?thesis
    unfolding stages_def f
    using m l
    by (simp add: startState_def step_defs truthy_def addAsset_def placeholderStage_def
        replaceImage_def patterns_def sources_def replacePattern_def replaceIn_def)
qed

section \<open>Properties of the placeholder stage\<close>



































































end
